theory Spec2Isabelle
  imports Complex_Main "HOL-Library.List_Lexorder" "HOL-Library.Multiset" "HOL-Library.Log_Nat"
begin

section \<open>JavaScript values used by the scheduling code\<close>

text \<open>
  A JavaScript string is a sequence of UTF-16 code units; \<open>length\<close>, indexing,
  \<open>slice\<close>, \<open>===\<close> and the relational operators all work on code units. A string is
  therefore a list of code units (natural numbers), ordered lexicographically
  (the order of \<open>HOL-Library.List_Lexorder\<close>, which is the order of \<open>a > b\<close> on
  JavaScript strings). \<open>js\<close> turns an ASCII literal into such a string.
\<close>

type_synonym jsstring = "nat list"

definition js :: "string \<Rightarrow> jsstring" where
  "js s = map of_char s"

text \<open>
  A JavaScript number is \<open>NaN\<close>, an infinity, or a finite binary64 value, held
  here as the rational number it denotes. The sums that the code computes
  (\<open>hour * 60 + minute\<close>, the differences of two times, the minutes scheduled on a
  day) are on whole numbers far below \<open>2^53\<close> (a duration is at most 1439 and an
  array has fewer than \<open>2^32\<close> elements), where binary64 arithmetic is exact; they
  are taken on the rationals. The tenths that \<open>Number(".5")\<close> yields are only ever
  tested by \<open>Number.isInteger\<close>. The one product that binary64 rounds, the
  configured \<open>maxDailyHours\<close> times 60, is rounded here as binary64 rounds it
  (\<open>js_times\<close> below). Negative zero is the finite value 0: the code only compares
  and adds it.
\<close>

datatype jsnum = NaN | PosInfinity | NegInfinity | Fin rat

fun isFinite :: "jsnum \<Rightarrow> bool" where
  "isFinite (Fin r) = True"
| "isFinite _ = False"

fun isInteger :: "jsnum \<Rightarrow> bool" where
  "isInteger (Fin r) = (of_int \<lfloor>r\<rfloor> = r)"
| "isInteger _ = False"

text \<open>
  Rounding to binary64 (IEEE 754 double precision, round to nearest, ties to even),
  which is how JavaScript rounds the result of an arithmetic operation and how
  \<open>JSON.parse\<close> reads a decimal literal. \<open>pow2 k\<close> is \<open>2^k\<close> for an integer \<open>k\<close>, and
  \<open>ilog2 x\<close> is the exponent \<open>e\<close> with \<open>2^e \<le> x < 2^(e+1)\<close> of a positive \<open>x\<close>
  (lemma \<open>ilog2_bounds\<close>).
\<close>

definition pow2 :: "int \<Rightarrow> rat" where
  "pow2 k = (if 0 \<le> k then 2 ^ nat k else 1 / 2 ^ nat (- k))"

definition ilog2 :: "rat \<Rightarrow> int" where
  "ilog2 x = (if 1 \<le> x then bitlen \<lfloor>x\<rfloor> - 1 else - bitlen (\<lceil>1 / x\<rceil> - 1))"

definition roundHalfEven :: "rat \<Rightarrow> int" where
  "roundHalfEven y =
     (let n = \<lfloor>y\<rfloor>;
          r = y - of_int n
      in if r < 1 / 2 then n else if 1 / 2 < r then n + 1 else if even n then n else n + 1)"

text \<open>
  A positive \<open>x\<close> with exponent \<open>e\<close> is rounded to a multiple of \<open>2^(e-52)\<close> (53
  significant bits), or of \<open>2^(-1074)\<close> in the subnormal range; a result of \<open>2^1024\<close>
  or more is the infinity.
\<close>

definition roundPositive :: "rat \<Rightarrow> jsnum" where
  "roundPositive x =
     (let e = ilog2 x;
          q = pow2 (max (e - 52) (- 1074));
          v = of_int (roundHalfEven (x / q)) * q
      in if pow2 1024 \<le> v then PosInfinity else Fin v)"

definition toBinary64 :: "rat \<Rightarrow> jsnum" where
  "toBinary64 x =
     (if x = 0 then Fin 0
      else if 0 < x then roundPositive x
      else (case roundPositive (- x) of Fin v \<Rightarrow> Fin (- v) | _ \<Rightarrow> NegInfinity))"

text \<open>
  The operators \<open>a * b\<close> and \<open>a > b\<close> on numbers, and \<open>Math.floor\<close>. The product of
  two finite numbers is the exact product rounded to binary64; with an infinite
  operand it is \<open>NaN\<close> when the other operand is zero and otherwise the infinity
  with the sign of the product. A comparison with \<open>NaN\<close> is false. The floor of a
  binary64 number is a binary64 number.
\<close>

definition isNegative :: "jsnum \<Rightarrow> bool" where
  "isNegative a = (case a of Fin r \<Rightarrow> r < 0 | NegInfinity \<Rightarrow> True | _ \<Rightarrow> False)"

definition js_times :: "jsnum \<Rightarrow> jsnum \<Rightarrow> jsnum" where
  "js_times a b =
     (case (a, b) of
        (Fin x, Fin y) \<Rightarrow> toBinary64 (x * y)
      | _ \<Rightarrow> if a = NaN \<or> b = NaN \<or> a = Fin 0 \<or> b = Fin 0 then NaN
             else if isNegative a = isNegative b then PosInfinity
             else NegInfinity)"

fun js_greater :: "jsnum \<Rightarrow> jsnum \<Rightarrow> bool" where
  "js_greater (Fin x) (Fin y) = (y < x)"
| "js_greater (Fin x) NegInfinity = True"
| "js_greater PosInfinity (Fin y) = True"
| "js_greater PosInfinity NegInfinity = True"
| "js_greater _ _ = False"

fun Math_floor :: "jsnum \<Rightarrow> jsnum" where
  "Math_floor (Fin x) = Fin (of_int \<lfloor>x\<rfloor>)"
| "Math_floor a = a"

text \<open>
  \<open>s.slice(b, e)\<close> for indices \<open>0 \<le> b\<close>, \<open>0 \<le> e\<close>: the code units from \<open>b\<close> up to
  but not including \<open>e\<close>, fewer when the string ends earlier, none when \<open>e \<le> b\<close>.
\<close>

definition slice :: "nat \<Rightarrow> nat \<Rightarrow> jsstring \<Rightarrow> jsstring" where
  "slice b e s = take (e - b) (drop b s)"

text \<open>
  The code units that \<open>String.prototype.trim\<close> and the string-to-number conversion
  strip: ECMAScript's WhiteSpace (TAB, VT, FF, SP, NBSP, ZWNBSP and the Unicode
  space separators) and LineTerminator (LF, CR, LS, PS).
\<close>

definition isStrWhiteSpaceChar :: "nat \<Rightarrow> bool" where
  "isStrWhiteSpaceChar c \<longleftrightarrow>
     c = 9 \<or> c = 10 \<or> c = 11 \<or> c = 12 \<or> c = 13 \<or> c = 32 \<or> c = 160 \<or> c = 5760 \<or>
     (8192 \<le> c \<and> c \<le> 8202) \<or> c = 8232 \<or> c = 8233 \<or> c = 8239 \<or> c = 8287 \<or>
     c = 12288 \<or> c = 65279"

definition trim :: "jsstring \<Rightarrow> jsstring" where
  "trim s = rev (dropWhile isStrWhiteSpaceChar (rev (dropWhile isStrWhiteSpaceChar s)))"

definition isDigit :: "nat \<Rightarrow> bool" where
  "isDigit c \<longleftrightarrow> 48 \<le> c \<and> c \<le> 57"

definition digitValue :: "nat \<Rightarrow> rat" where
  "digitValue c = of_nat (c - 48)"

text \<open>
  \<open>Number(s)\<close> for a string \<open>s\<close> of at most two code units, which is all that
  \<open>toMinutes\<close> passes (two-unit slices of a five-unit string). After trimming,
  ECMAScript's StringNumericLiteral grammar leaves, within two code units, exactly:
  the empty string (0), one or two decimal digits, a digit followed by a dot, a dot
  followed by a digit, and a sign followed by a digit. An exponent, a hexadecimal,
  octal or binary literal and \<open>Infinity\<close> all need three code units or more.
  Code unit 43 is \<open>+\<close>, 45 is \<open>-\<close>, 46 is the dot.
\<close>

definition Number_str :: "jsstring \<Rightarrow> jsnum" where
  "Number_str s =
     (case trim s of
        [] \<Rightarrow> Fin 0
      | [a] \<Rightarrow> if isDigit a then Fin (digitValue a) else NaN
      | [a, b] \<Rightarrow>
          if isDigit a \<and> isDigit b then Fin (10 * digitValue a + digitValue b)
          else if isDigit a \<and> b = 46 then Fin (digitValue a)
          else if a = 46 \<and> isDigit b then Fin (digitValue b / 10)
          else if a = 43 \<and> isDigit b then Fin (digitValue b)
          else if a = 45 \<and> isDigit b then Fin (- digitValue b)
          else NaN
      | _ \<Rightarrow> NaN)"

section \<open>Time utility (business layer)\<close>

text \<open>
  \<open>toMinutes(timeText)\<close>. The time strings are fields of shift records, typed as
  strings; the \<open>typeof timeText !== "string"\<close> test is always false on this type.
  Code unit 58 is the colon. The two \<open>Number.isInteger\<close> tests also reject \<open>NaN\<close>;
  behind them both parts are finite, so the range tests and the sum are on
  rationals.
\<close>

definition toMinutes :: "jsstring \<Rightarrow> jsnum" where
  "toMinutes timeText =
     (if length timeText \<noteq> 5 then NaN
      else if timeText ! 2 \<noteq> 58 then NaN
      else
        let hour = Number_str (slice 0 2 timeText);
            minute = Number_str (slice 3 5 timeText)
        in if \<not> isInteger hour \<or> \<not> isInteger minute then NaN
           else (case (hour, minute) of
                   (Fin h, Fin m) \<Rightarrow>
                     if h < 0 \<or> h > 23 \<or> m < 0 \<or> m > 59 then NaN
                     else Fin (h * 60 + m)
                 | _ \<Rightarrow> NaN))"

text \<open>
  \<open>getShiftMinutes(startTime, endTime)\<close>: \<open>NaN\<close> unless both times are finite;
  otherwise the end, moved into the next day when it is before the start, minus the
  start.
\<close>

definition getShiftMinutes :: "jsstring \<Rightarrow> jsstring \<Rightarrow> jsnum" where
  "getShiftMinutes startTime endTime =
     (let start = toMinutes startTime;
          end = toMinutes endTime
      in if \<not> isFinite start \<or> \<not> isFinite end then NaN
         else (case (start, end) of
                 (Fin s, Fin e) \<Rightarrow>
                   let endAdjusted = (if e < s then e + 24 * 60 else e)
                   in Fin (endAdjusted - s)
               | _ \<Rightarrow> NaN))"

section \<open>Records and the file store (persistence layer)\<close>

text \<open>
  The three JSON files hold arrays of plain records. An assignment record has the
  fields \<open>employeeId\<close> and \<open>shiftId\<close> of the source; they are prefixed here because
  the employee and shift records already use these names.
\<close>

record employee =
  employeeId :: jsstring
  name :: jsstring
  phone :: jsstring

record shift =
  shiftId :: jsstring
  date :: jsstring
  startTime :: jsstring
  endTime :: jsstring

record assignment =
  a_employeeId :: jsstring
  a_shiftId :: jsstring

text \<open>
  What \<open>obj.maxDailyHours\<close> of the parsed \<open>config.json\<close> can be. \<open>JUndefined\<close> is
  the missing field. A JSON number is finite or, on overflow, an infinity. A string,
  array or object is carried with the number that \<open>Number(...)\<close> converts it to.
\<close>

datatype jsval = JUndefined | JNull | JBoolean bool | JNumber jsnum | JOther jsnum

fun Number_val :: "jsval \<Rightarrow> jsnum" where
  "Number_val JUndefined = NaN"
| "Number_val JNull = Fin 0"
| "Number_val (JBoolean b) = Fin (if b then 1 else 0)"
| "Number_val (JNumber n) = n"
| "Number_val (JOther n) = n"

text \<open>
  The files as the persistence layer reads them: every function below re-reads and
  parses the file it needs, so the store is the parsed content of the four files.
  Reading and parsing succeed here; on a missing or malformed file the functions of
  the source throw, and so does \<open>assignShift\<close>.
\<close>

record store =
  employeesFile :: "employee list"
  shiftsFile :: "shift list"
  assignmentsFile :: "assignment list"
  settings_maxDailyHours :: jsval

text \<open>
  A configuration object as the business layer receives it. The business layer
  converts the field with \<open>Number(config.maxDailyHours)\<close>, so the field is any
  value; \<open>readSettings\<close> always stores a number in it.
\<close>

record config =
  maxDailyHours :: jsval

definition findEmployee :: "store \<Rightarrow> jsstring \<Rightarrow> employee option" where
  "findEmployee st empId = find (\<lambda>e. employeeId e = empId) (employeesFile st)"

definition findShift :: "store \<Rightarrow> jsstring \<Rightarrow> shift option" where
  "findShift st sid = find (\<lambda>s. shiftId s = sid) (shiftsFile st)"

definition findAssignment :: "store \<Rightarrow> jsstring \<Rightarrow> jsstring \<Rightarrow> assignment option" where
  "findAssignment st empId sid =
     find (\<lambda>a. a_employeeId a = empId \<and> a_shiftId a = sid) (assignmentsFile st)"

definition addAssignment :: "store \<Rightarrow> jsstring \<Rightarrow> jsstring \<Rightarrow> store" where
  "addAssignment st empId sid =
     st\<lparr>assignmentsFile := assignmentsFile st @ [\<lparr>a_employeeId = empId, a_shiftId = sid\<rparr>]\<rparr>"

definition getEmployeeShifts :: "store \<Rightarrow> jsstring \<Rightarrow> shift list" where
  "getEmployeeShifts st empId =
     (let shiftIds = map a_shiftId (filter (\<lambda>a. a_employeeId a = empId) (assignmentsFile st))
      in filter (\<lambda>s. shiftId s \<in> set shiftIds) (shiftsFile st))"

definition readSettings :: "store \<Rightarrow> config" where
  "readSettings st =
     (let v = Number_val (settings_maxDailyHours st)
      in if \<not> isFinite v \<or> (case v of Fin r \<Rightarrow> r \<le> 0 | _ \<Rightarrow> False)
         then \<lparr>maxDailyHours = JNumber (Fin 8)\<rparr>
         else \<lparr>maxDailyHours = JNumber v\<rparr>)"

definition getConfig :: "store \<Rightarrow> config" where
  "getConfig st = readSettings st"

section \<open>Assignment workflow (business layer)\<close>

text \<open>
  What a call of \<open>assignShift\<close> leaves behind: the message it returns, the store
  afterwards, and how many times it called \<open>getShiftMinutes\<close>.
\<close>

record outcome =
  message :: string
  after :: store
  durationCalls :: nat

text \<open>
  The loop over \<open>scheduled\<close> that sums the minutes already scheduled on the date of
  the new shift. The arguments are the date, the shifts still to visit, the running
  \<open>scheduledMinutesForDate\<close> and the number of \<open>getShiftMinutes\<close> calls so far. The
  early \<open>return "Invalid shift time format"\<close> is the result \<open>None\<close>.
\<close>

fun sumScheduled :: "jsstring \<Rightarrow> shift list \<Rightarrow> rat \<Rightarrow> nat \<Rightarrow> rat option \<times> nat" where
  "sumScheduled d [] minutesSoFar calls = (Some minutesSoFar, calls)"
| "sumScheduled d (s # rest) minutesSoFar calls =
     (if date s = d then
        (case getShiftMinutes (startTime s) (endTime s) of
           Fin minutes \<Rightarrow>
             if minutes \<le> 0 then (None, calls + 1)
             else sumScheduled d rest (minutesSoFar + minutes) (calls + 1)
         | _ \<Rightarrow> (None, calls + 1))
      else sumScheduled d rest minutesSoFar calls)"

text \<open>
  The body of \<open>assignShift(empId, shiftId)\<close>. The business layer reaches the
  persistence module through \<open>require("./persistence")\<close>; the module's
  \<open>getConfig\<close> is a parameter here, so that the check on the configuration can be
  stated for every configuration source. The other calls are those of the file
  persistence above. \<open>maxDailyHours\<close> is a binary64 number, which \<open>toBinary64\<close>
  leaves as it is (lemma \<open>nearest12_binary64\<close> for one such number); a decimal in
  its place, such as 8.2, is taken as the binary64 number that \<open>JSON.parse\<close> reads
  it as.
\<close>

definition assignShiftWith ::
  "(store \<Rightarrow> config) \<Rightarrow> store \<Rightarrow> jsstring \<Rightarrow> jsstring \<Rightarrow> outcome" where
  "assignShiftWith persistence_getConfig st empId sid =
     (case findEmployee st empId of
        None \<Rightarrow> \<lparr>message = ''Employee does not exist'', after = st, durationCalls = 0\<rparr>
      | Some employee \<Rightarrow>
     (case findShift st sid of
        None \<Rightarrow> \<lparr>message = ''Shift does not exist'', after = st, durationCalls = 0\<rparr>
      | Some shift \<Rightarrow>
     (case findAssignment st empId sid of
        Some assignment \<Rightarrow>
          \<lparr>message = ''Employee already assigned to shift'', after = st, durationCalls = 0\<rparr>
      | None \<Rightarrow>
     (case Number_val (maxDailyHours (persistence_getConfig st)) of
        Fin maxDailyHours' \<Rightarrow>
          if maxDailyHours' \<le> 0 then
            \<lparr>message = ''Invalid config: maxDailyHours must be a positive number'',
             after = st, durationCalls = 0\<rparr>
          else
            (case getShiftMinutes (startTime shift) (endTime shift) of
               Fin newShiftMinutes \<Rightarrow>
                 if newShiftMinutes \<le> 0 then
                   \<lparr>message = ''Invalid shift time format'', after = st, durationCalls = 1\<rparr>
                 else
                   (case sumScheduled (date shift) (getEmployeeShifts st empId) 0 1 of
                      (None, calls) \<Rightarrow>
                        \<lparr>message = ''Invalid shift time format'', after = st,
                         durationCalls = calls\<rparr>
                    | (Some scheduledMinutesForDate, calls) \<Rightarrow>
                        let maxDailyMinutes =
                              Math_floor (js_times (toBinary64 maxDailyHours') (Fin 60))
                        in if js_greater (Fin (scheduledMinutesForDate + newShiftMinutes))
                                maxDailyMinutes
                           then \<lparr>message =
                                   ''Cannot assign shift: maxDailyHours limit would be exceeded.'',
                                 after = st, durationCalls = calls\<rparr>
                           else \<lparr>message = ''Ok'', after = addAssignment st empId sid,
                                 durationCalls = calls\<rparr>)
             | _ \<Rightarrow> \<lparr>message = ''Invalid shift time format'', after = st, durationCalls = 1\<rparr>)
      | _ \<Rightarrow>
          \<lparr>message = ''Invalid config: maxDailyHours must be a positive number'',
           after = st, durationCalls = 0\<rparr>))))"

text \<open>
  \<open>assignShift\<close> as the program runs it: with the \<open>getConfig\<close> of the file
  persistence.
\<close>

definition assignShift :: "store \<Rightarrow> jsstring \<Rightarrow> jsstring \<Rightarrow> outcome" where
  "assignShift st empId sid = assignShiftWith getConfig st empId sid"

section \<open>Sorted schedule (web application, business layer)\<close>

text \<open>
  The sort key of a shift: \<open>a.date + " " + a.startTime\<close>.
\<close>

definition sortKey :: "shift \<Rightarrow> jsstring" where
  "sortKey a = date a @ js '' '' @ startTime a"

text \<open>
  The inner loop of the bubble sort, from index \<open>j\<close> on: \<open>j < shifts.length - 1\<close>
  is \<open>j + 1 < length shifts\<close> (for the empty array the bound is \<open>-1\<close> and the loop
  does not run). A swap writes the old \<open>shifts[j + 1]\<close> to \<open>j\<close> and the old
  \<open>shifts[j]\<close> to \<open>j + 1\<close>.
\<close>

function innerLoop :: "shift list \<Rightarrow> nat \<Rightarrow> shift list" where
  "innerLoop shifts j =
     (if j + 1 < length shifts then
        let a = shifts ! j;
            b = shifts ! (j + 1);
            aKey = sortKey a;
            bKey = sortKey b
        in innerLoop (if aKey > bKey then shifts[j := b, j + 1 := a] else shifts) (j + 1)
      else shifts)"
  by pat_completeness auto
termination
  by (relation "measure (\<lambda>(shifts, j). length shifts - j)") auto

text \<open>
  The outer loop, from index \<open>i\<close> on: one full inner loop for every index of the
  array.
\<close>

function outerLoop :: "shift list \<Rightarrow> nat \<Rightarrow> shift list" where
  "outerLoop shifts i =
     (if i < length shifts then outerLoop (innerLoop shifts 0) (i + 1) else shifts)"
  by pat_completeness auto
termination
proof (relation "measure (\<lambda>(shifts, i). length shifts - i)")
  show "wf (measure (\<lambda>(shifts, i). length shifts - i))"
    by simp
next
  fix shifts :: "shift list" and i :: nat
  assume less: "i < length shifts"
  have same: "length (innerLoop xs j) = length xs" for xs j
  proof (induction xs j rule: innerLoop.induct)
    case (1 xs j)
    show ?case
    proof (cases "j + 1 < length xs")
      case True
      then show ?thesis
        using "1.IH" [OF True refl refl refl refl]
        by (subst innerLoop.simps) (auto simp add: Let_def simp del: innerLoop.simps)
    next
      case False
      then show ?thesis by simp
    qed
  qed
  show "((innerLoop shifts 0, i + 1), (shifts, i)) \<in> measure (\<lambda>(shifts, i). length shifts - i)"
    using less by (simp add: same del: innerLoop.simps)
qed

declare innerLoop.simps [simp del] outerLoop.simps [simp del]

text \<open>
  \<open>getScheduleForEmployeeSorted(empId)\<close>. The persistence module of the web
  application is a parameter: \<open>fetch empId\<close> is what its \<open>getEmployeeShifts(empId)\<close>
  returns.
\<close>

definition getScheduleForEmployeeSorted :: "(jsstring \<Rightarrow> shift list) \<Rightarrow> jsstring \<Rightarrow> shift list" where
  "getScheduleForEmployeeSorted fetch empId = outerLoop (fetch empId) 0"

section \<open>Edit routes (web application)\<close>

text \<open>
  What a route handler answers: \<open>res.send\<close> with its status (200 unless set),
  \<open>res.redirect\<close>, \<open>res.render\<close> of a view, or nothing when an awaited call rejects
  and the handler never reaches a response.
\<close>

datatype response = Send nat string | Redirect string | Render string | NoResponse

text \<open>
  The test \<open>/^[0-9]{4}-[0-9]{4}$/\<close>: exactly nine code units, four ASCII digits, the
  dash (45), four ASCII digits.
\<close>

definition phoneOk :: "jsstring \<Rightarrow> bool" where
  "phoneOk p =
     (case p of
        [d1, d2, d3, d4, dash, d5, d6, d7, d8] \<Rightarrow>
          isDigit d1 \<and> isDigit d2 \<and> isDigit d3 \<and> isDigit d4 \<and> dash = 45 \<and>
          isDigit d5 \<and> isDigit d6 \<and> isDigit d7 \<and> isDigit d8
      | _ \<Rightarrow> False)"

text \<open>
  \<open>GET /employees/:id/edit\<close>. The lookup \<open>business.getEmployee\<close> goes to the web
  application's persistence module, a parameter here: \<open>None\<close> is its \<open>undefined\<close>
  or \<open>null\<close>.
\<close>

definition getEmployeeEdit :: "('db \<Rightarrow> jsstring \<Rightarrow> employee option) \<Rightarrow> 'db \<Rightarrow> jsstring \<Rightarrow> response" where
  "getEmployeeEdit getEmployee db empId =
     (case getEmployee db empId of
        None \<Rightarrow> Send 404 ''Employee not found''
      | Some employee \<Rightarrow> Render ''editEmployee'')"

text \<open>
  \<open>POST /employees/:id/edit\<close>. A body field is \<open>Some\<close> string, or \<open>None\<close> when it is
  absent or not a string. \<open>business.updateEmployee\<close> goes to the web application's
  persistence module, a parameter here: it returns the database afterwards, or
  \<open>None\<close> when the call rejects.
\<close>

definition postEmployeeEdit ::
  "('db \<Rightarrow> jsstring \<Rightarrow> jsstring \<Rightarrow> jsstring \<Rightarrow> 'db option) \<Rightarrow> 'db \<Rightarrow> jsstring \<Rightarrow>
   jsstring option \<Rightarrow> jsstring option \<Rightarrow> response \<times> 'db" where
  "postEmployeeEdit updateEmployee db empId bodyName bodyPhone =
     (let name0 = (case bodyName of Some n \<Rightarrow> n | None \<Rightarrow> []);
          phone0 = (case bodyPhone of Some p \<Rightarrow> p | None \<Rightarrow> []);
          name1 = trim name0;
          phone1 = trim phone0
      in if length name1 = 0 then (Send 200 ''Validation failed: Name must be non-empty'', db)
         else if \<not> phoneOk phone1 then
           (Send 200 ''Validation failed: Phone must be 4 digits, a dash, then 4 digits'', db)
         else (case updateEmployee db empId name1 phone1 of
                 None \<Rightarrow> (NoResponse, db)
               | Some db' \<Rightarrow> (Redirect ''/'', db')))"

section \<open>Notions used to state the properties\<close>

text \<open>
  The duration of a shift, as \<open>assignShift\<close> computes it from the two time fields.
\<close>

definition shiftDuration :: "shift \<Rightarrow> jsnum" where
  "shiftDuration s = getShiftMinutes (startTime s) (endTime s)"

text \<open>
  A duration that passes the test \<open>Number.isFinite(minutes) && minutes > 0\<close>.
\<close>

definition validDuration :: "jsnum \<Rightarrow> bool" where
  "validDuration n = (case n of Fin m \<Rightarrow> 0 < m | _ \<Rightarrow> False)"

text \<open>
  The minutes of a finite duration (0 for a duration that is not finite).
\<close>

definition minutesOf :: "jsnum \<Rightarrow> rat" where
  "minutesOf n = (case n of Fin m \<Rightarrow> m | _ \<Rightarrow> 0)"

text \<open>
  The shifts already assigned to an employee on a given date.
\<close>

definition sameDayShifts :: "store \<Rightarrow> jsstring \<Rightarrow> jsstring \<Rightarrow> shift list" where
  "sameDayShifts st empId d = filter (\<lambda>s. date s = d) (getEmployeeShifts st empId)"

text \<open>
  The sum of the durations of the shifts already assigned to an employee on a date.
\<close>

definition scheduledMinutes :: "store \<Rightarrow> jsstring \<Rightarrow> jsstring \<Rightarrow> rat" where
  "scheduledMinutes st empId d =
     sum_list (map (\<lambda>s. minutesOf (shiftDuration s)) (sameDayShifts st empId d))"

text \<open>
  The (employeeId, shiftId) pairs of the assignments file, in order.
\<close>

definition assignedPairs :: "store \<Rightarrow> (jsstring \<times> jsstring) list" where
  "assignedPairs st = map (\<lambda>a. (a_employeeId a, a_shiftId a)) (assignmentsFile st)"

text \<open>
  Every assignment refers to an employee and to a shift that exist. The program only
  adds an assignment after both lookups succeeded and never removes an employee or a
  shift.
\<close>

definition referencesExist :: "store \<Rightarrow> bool" where
  "referencesExist st =
     list_all (\<lambda>a. findEmployee st (a_employeeId a) \<noteq> None \<and> findShift st (a_shiftId a) \<noteq> None)
       (assignmentsFile st)"

text \<open>
  A configured value that is a finite positive number.
\<close>

definition validConfig :: "jsnum \<Rightarrow> bool" where
  "validConfig n = (case n of Fin h \<Rightarrow> 0 < h | _ \<Rightarrow> False)"

text \<open>
  Two shifts in non-decreasing order of their sort keys.
\<close>

definition keyOrder :: "shift \<Rightarrow> shift \<Rightarrow> bool" where
  "keyOrder a b \<longleftrightarrow> sortKey a \<le> sortKey b"

text \<open>
  Two shifts in order of date and, on the same date, of start time.
\<close>

definition dateThenStart :: "shift \<Rightarrow> shift \<Rightarrow> bool" where
  "dateThenStart a b \<longleftrightarrow> date a < date b \<or> (date a = date b \<and> startTime a \<le> startTime b)"

text \<open>
  One pass of adjacent swaps over a list: what one run of the inner loop from index
  0 does (lemma \<open>innerLoop_pass\<close>).
\<close>

fun bubble :: "shift list \<Rightarrow> shift list" where
  "bubble [] = []"
| "bubble [a] = [a]"
| "bubble (a # b # rest) =
     (if sortKey a > sortKey b then b # bubble (a # rest) else a # bubble (b # rest))"

section \<open>Example data\<close>

text \<open>
  A store with one employee, five shifts and one assignment, for a given
  \<open>maxDailyHours\<close>; shift \<open>S003\<close> has length zero and shift \<open>S004\<close> a malformed
  start time; the five named shifts are the records of its shifts file.
  \<open>decimalCapStore\<close> has the cap 8.2 and a sixth shift of 252 minutes on the day of
  the assigned shift of 240 minutes; \<open>binaryCapStore\<close> has as cap \<open>nearest12\<close>, the
  binary64 number nearest to 1.2, and a sixth shift of 72 minutes on a free day.
  \<open>corruptStore\<close> assigns the malformed shift to the employee. \<open>noConfig\<close> is a
  configuration source without \<open>maxDailyHours\<close>. \<open>demoFetch\<close>, \<open>demoFind\<close> and
  \<open>demoUpdate\<close> stand for the web application's persistence module, the last two
  over a list of employees.
\<close>

definition demoStore :: "rat \<Rightarrow> store" where
  "demoStore hours =
     \<lparr>employeesFile =
        [\<lparr>employeeId = js ''E001'', name = js ''Ann'', phone = js ''1234-5678''\<rparr>],
      shiftsFile =
        [\<lparr>shiftId = js ''S001'', date = js ''2026-01-05'', startTime = js ''09:00'',
          endTime = js ''13:00''\<rparr>,
         \<lparr>shiftId = js ''S002'', date = js ''2026-01-05'', startTime = js ''22:00'',
          endTime = js ''02:00''\<rparr>,
         \<lparr>shiftId = js ''S003'', date = js ''2026-01-05'', startTime = js ''18:00'',
          endTime = js ''18:00''\<rparr>,
         \<lparr>shiftId = js ''S004'', date = js ''2026-01-06'', startTime = js ''9:00'',
          endTime = js ''17:00''\<rparr>,
         \<lparr>shiftId = js ''S005'', date = js ''2026-01-06'', startTime = js ''10:00'',
          endTime = js ''11:00''\<rparr>],
      assignmentsFile = [\<lparr>a_employeeId = js ''E001'', a_shiftId = js ''S001''\<rparr>],
      settings_maxDailyHours = JNumber (Fin hours)\<rparr>"

definition morningShift :: shift where
  "morningShift =
     \<lparr>shiftId = js ''S001'', date = js ''2026-01-05'', startTime = js ''09:00'',
      endTime = js ''13:00''\<rparr>"

definition nightShift :: shift where
  "nightShift =
     \<lparr>shiftId = js ''S002'', date = js ''2026-01-05'', startTime = js ''22:00'',
      endTime = js ''02:00''\<rparr>"

definition emptyShift :: shift where
  "emptyShift =
     \<lparr>shiftId = js ''S003'', date = js ''2026-01-05'', startTime = js ''18:00'',
      endTime = js ''18:00''\<rparr>"

definition malformedShift :: shift where
  "malformedShift =
     \<lparr>shiftId = js ''S004'', date = js ''2026-01-06'', startTime = js ''9:00'',
      endTime = js ''17:00''\<rparr>"

definition hourShift :: shift where
  "hourShift =
     \<lparr>shiftId = js ''S005'', date = js ''2026-01-06'', startTime = js ''10:00'',
      endTime = js ''11:00''\<rparr>"



definition nearest12 :: rat where
  "nearest12 = 5404319552844595 / 4503599627370496"



definition corruptStore :: store where
  "corruptStore =
     (demoStore 8)\<lparr>assignmentsFile := [\<lparr>a_employeeId = js ''E001'', a_shiftId = js ''S004''\<rparr>]\<rparr>"

definition noConfig :: "store \<Rightarrow> config" where
  "noConfig st = \<lparr>maxDailyHours = JUndefined\<rparr>"

definition demoFetch :: "jsstring \<Rightarrow> shift list" where
  "demoFetch empId =
     (if empId = js ''E001'' then [hourShift, nightShift, morningShift] else [])"

definition demoFind :: "employee list \<Rightarrow> jsstring \<Rightarrow> employee option" where
  "demoFind db empId = find (\<lambda>e. employeeId e = empId) db"

definition demoUpdate ::
  "employee list \<Rightarrow> jsstring \<Rightarrow> jsstring \<Rightarrow> jsstring \<Rightarrow> employee list option" where
  "demoUpdate db empId n p =
     Some (map (\<lambda>e. if employeeId e = empId then e\<lparr>name := n, phone := p\<rparr> else e) db)"

section \<open>Properties of the time utility\<close>

lemmas time_eval_defs = toMinutes_def js_def slice_def Number_str_def trim_def
  isStrWhiteSpaceChar_def isDigit_def digitValue_def

lemma digit_not_space: "isDigit c \<Longrightarrow> \<not> isStrWhiteSpaceChar c"
  by (auto simp: isDigit_def isStrWhiteSpaceChar_def)

lemma trim_two_digits: "isDigit a \<Longrightarrow> isDigit b \<Longrightarrow> trim [a, b] = [a, b]"
  by (simp add: trim_def digit_not_space)

lemma Number_str_two_digits:
  "isDigit a \<Longrightarrow> isDigit b \<Longrightarrow> Number_str [a, b] = Fin (10 * digitValue a + digitValue b)"
  by (simp add: Number_str_def trim_two_digits)

lemma digitValue_int: "of_int \<lfloor>digitValue c\<rfloor> = digitValue c" "0 \<le> digitValue c"
  by (simp_all add: digitValue_def)

lemma two_digits_int:
  "of_int \<lfloor>10 * digitValue a + digitValue b\<rfloor> = 10 * digitValue a + digitValue b"
proof -
  have "10 * digitValue a + digitValue b = of_nat (10 * (a - 48) + (b - 48))"
    by (simp add: digitValue_def)
  then show ?thesis by (simp only: floor_of_nat of_int_of_nat_eq)
qed

lemma toMinutes_digits:
  assumes "isDigit a" "isDigit b" "isDigit c" "isDigit d"
    and "10 * digitValue a + digitValue b \<le> 23" and "10 * digitValue c + digitValue d \<le> 59"
  shows "toMinutes [a, b, 58, c, d] =
           Fin ((10 * digitValue a + digitValue b) * 60 + (10 * digitValue c + digitValue d))"
proof -
  have nn: "0 \<le> 10 * digitValue a + digitValue b" "0 \<le> 10 * digitValue c + digitValue d"
    by (simp_all add: digitValue_int)
  show ?thesis
    using assms nn
    by (simp add: toMinutes_def slice_def Number_str_two_digits two_digits_int not_less)
qed

lemma toMinutes_range:
  "toMinutes t = NaN \<or> (\<exists>m::int. 0 \<le> m \<and> m \<le> 1439 \<and> toMinutes t = Fin (of_int m))"
proof (cases "toMinutes t = NaN")
  case True
  then show ?thesis by simp
next
  case False
  then obtain h m where hm: "Number_str (slice 0 2 t) = Fin h" "Number_str (slice 3 5 t) = Fin m"
    "of_int \<lfloor>h\<rfloor> = h" "of_int \<lfloor>m\<rfloor> = m" "0 \<le> h" "h \<le> 23" "0 \<le> m" "m \<le> 59"
    and res: "toMinutes t = Fin (h * 60 + m)"
    by (auto simp: toMinutes_def Let_def not_less split: if_splits jsnum.splits)
  define hi where "hi = \<lfloor>h\<rfloor>"
  define mi where "mi = \<lfloor>m\<rfloor>"
  have h: "h = of_int hi" and m: "m = of_int mi"
    using hm(3,4) by (simp_all only: hi_def mi_def)
  have bounds: "0 \<le> hi" "hi \<le> 23" "0 \<le> mi" "mi \<le> 59"
    using hm(5-8) unfolding h m by simp_all
  have "h * 60 + m = of_int (hi * 60 + mi)"
    unfolding h m by simp
  moreover have "0 \<le> hi * 60 + mi" "hi * 60 + mi \<le> 1439"
    using bounds by linarith+
  ultimately show ?thesis
    using res by auto
qed

lemma toMinutes_NaN_iff:
  "toMinutes t = NaN \<longleftrightarrow>
     length t \<noteq> 5 \<or> t ! 2 \<noteq> 58 \<or>
     \<not> isInteger (Number_str (slice 0 2 t)) \<or> \<not> isInteger (Number_str (slice 3 5 t)) \<or>
     (\<exists>h. Number_str (slice 0 2 t) = Fin h \<and> (h < 0 \<or> 23 < h)) \<or>
     (\<exists>m. Number_str (slice 3 5 t) = Fin m \<and> (m < 0 \<or> 59 < m))"
  by (auto simp: toMinutes_def Let_def split: jsnum.splits)


lemma toMinutes_0930: "toMinutes (js ''09:30'') = Fin 570"
  by (simp add: time_eval_defs)

lemma toMinutes_930: "toMinutes (js ''9:30'') = NaN"
  by (simp add: time_eval_defs)

lemma toMinutes_2400: "toMinutes (js ''24:00'') = NaN"
  by (simp add: time_eval_defs)

text \<open>
  Claim C4. \<open>toMinutes\<close> returns \<open>NaN\<close> exactly when the text is not five code units
  long, or has no colon at position 2, or one of its two parts does not convert to an
  integer, or the hour is outside 0..23, or the minute is outside 0..59. Every other
  result is a whole number of minutes between 0 and 1439, and on a text of two digits,
  a colon and two digits with hour at most 23 and minute at most 59 it is
  hour * 60 + minute. \<open>toMinutes("09:30")\<close> is 570; \<open>"9:30"\<close> and \<open>"24:00"\<close> are
  invalid. Whether a part is an integer is what \<open>Number\<close> makes of it, so a part such
  as \<open>" 9"\<close> or \<open>"9."\<close> counts as the integer 9.
\<close>

theorem toMinutes_spec:
  "(toMinutes t = NaN \<longleftrightarrow>
      length t \<noteq> 5 \<or> t ! 2 \<noteq> 58 \<or>
      \<not> isInteger (Number_str (slice 0 2 t)) \<or> \<not> isInteger (Number_str (slice 3 5 t)) \<or>
      (\<exists>h. Number_str (slice 0 2 t) = Fin h \<and> (h < 0 \<or> 23 < h)) \<or>
      (\<exists>m. Number_str (slice 3 5 t) = Fin m \<and> (m < 0 \<or> 59 < m))) \<and>
   (toMinutes t \<noteq> NaN \<longrightarrow>
      (\<exists>n::int. 0 \<le> n \<and> n \<le> 1439 \<and> toMinutes t = Fin (of_int n))) \<and>
   (isDigit a \<and> isDigit b \<and> isDigit c \<and> isDigit d \<and>
    10 * digitValue a + digitValue b \<le> 23 \<and> 10 * digitValue c + digitValue d \<le> 59 \<longrightarrow>
      toMinutes [a, b, 58, c, d] =
        Fin ((10 * digitValue a + digitValue b) * 60 + (10 * digitValue c + digitValue d))) \<and>
   toMinutes (js ''09:30'') = Fin 570 \<and>
   toMinutes (js ''9:30'') = NaN \<and>
   toMinutes (js ''24:00'') = NaN"
  using toMinutes_NaN_iff [of t] toMinutes_range [of t] toMinutes_digits [of a b c d]
    toMinutes_0930 toMinutes_930 toMinutes_2400
  by blast

text \<open>
  The text \<open>"23:59"\<close> is valid and gives the largest value, 1439.
\<close>

theorem toMinutes_spec_witness:
  "toMinutes (js ''23:59'') \<noteq> NaN \<and>
   (\<exists>n::int. 0 \<le> n \<and> n \<le> 1439 \<and> toMinutes (js ''23:59'') = Fin (of_int n)) \<and>
   isDigit 50 \<and> isDigit 51 \<and> isDigit 53 \<and> isDigit 57 \<and>
   10 * digitValue 50 + digitValue 51 \<le> 23 \<and> 10 * digitValue 53 + digitValue 57 \<le> 59 \<and>
   toMinutes [50, 51, 58, 53, 57] = Fin 1439"
proof -
  have val: "toMinutes (js ''23:59'') = Fin 1439"
    by (simp add: time_eval_defs)
  have digits: "isDigit 50 \<and> isDigit 51 \<and> isDigit 53 \<and> isDigit 57 \<and>
      10 * digitValue 50 + digitValue 51 \<le> 23 \<and> 10 * digitValue 53 + digitValue 57 \<le> 59"
    by (simp add: isDigit_def digitValue_def)
  show ?thesis
    using toMinutes_spec [of "js ''23:59''" 50 51 53 57] val digits
    by (simp add: digitValue_def)
qed

lemma toMinutes_not_inf: "toMinutes t \<noteq> PosInfinity" "toMinutes t \<noteq> NegInfinity"
  using toMinutes_range [of t] by auto

lemma getShiftMinutes_Fin:
  "toMinutes s = Fin a \<Longrightarrow> toMinutes e = Fin b \<Longrightarrow>
     getShiftMinutes s e = Fin (if b < a then b - a + 1440 else b - a)"
  by (simp add: getShiftMinutes_def)

lemma getShiftMinutes_NaN_iff:
  "getShiftMinutes s e = NaN \<longleftrightarrow> toMinutes s = NaN \<or> toMinutes e = NaN"
  using toMinutes_not_inf [of s] toMinutes_not_inf [of e]
  by (cases "toMinutes s"; cases "toMinutes e") (simp_all add: getShiftMinutes_def Let_def)

lemma getShiftMinutes_not_inf:
  "getShiftMinutes s e \<noteq> PosInfinity" "getShiftMinutes s e \<noteq> NegInfinity"
  by (cases "toMinutes s"; cases "toMinutes e"; simp add: getShiftMinutes_def Let_def)+

lemma getShiftMinutes_2200_0200: "getShiftMinutes (js ''22:00'') (js ''02:00'') = Fin 240"
  by (simp add: getShiftMinutes_def time_eval_defs)

lemma getShiftMinutes_0900_1700: "getShiftMinutes (js ''09:00'') (js ''17:00'') = Fin 480"
  by (simp add: getShiftMinutes_def time_eval_defs)

text \<open>
  Claim C5. When both times are valid, \<open>getShiftMinutes\<close> is end minus start, plus
  1440 when the end is before the start; when either time is invalid the result is
  \<open>NaN\<close>, and a time is either invalid or a finite number of minutes.
  \<open>getShiftMinutes("22:00", "02:00")\<close> is 240 and \<open>getShiftMinutes("09:00", "17:00")\<close>
  is 480.
\<close>

theorem getShiftMinutes_spec:
  "(toMinutes s = Fin a \<and> toMinutes e = Fin b \<longrightarrow>
      getShiftMinutes s e = Fin (if b < a then b - a + 1440 else b - a)) \<and>
   (toMinutes s = NaN \<or> toMinutes e = NaN \<longrightarrow> getShiftMinutes s e = NaN) \<and>
   (toMinutes s = NaN \<or> (\<exists>x. toMinutes s = Fin x)) \<and>
   getShiftMinutes (js ''22:00'') (js ''02:00'') = Fin 240 \<and>
   getShiftMinutes (js ''09:00'') (js ''17:00'') = Fin 480"
  using getShiftMinutes_Fin [of s a e b] getShiftMinutes_NaN_iff [of s e] toMinutes_range [of s]
    getShiftMinutes_2200_0200 getShiftMinutes_0900_1700
  by blast

text \<open>
  An overnight shift from 22:00 to 02:00, and an invalid start time.
\<close>

theorem getShiftMinutes_spec_witness:
  "toMinutes (js ''22:00'') = Fin 1320 \<and> toMinutes (js ''02:00'') = Fin 120 \<and>
   getShiftMinutes (js ''22:00'') (js ''02:00'') = Fin 240 \<and>
   toMinutes (js ''9:00'') = NaN \<and> getShiftMinutes (js ''9:00'') (js ''02:00'') = NaN"
proof -
  have a: "toMinutes (js ''22:00'') = Fin 1320" and b: "toMinutes (js ''02:00'') = Fin 120"
    and c: "toMinutes (js ''9:00'') = NaN"
    by (simp_all add: time_eval_defs)
  show ?thesis
    using getShiftMinutes_spec [of "js ''22:00''" 1320 "js ''02:00''" 120]
      getShiftMinutes_spec [of "js ''9:00''" 0 "js ''02:00''" 0] a b c
    by simp
qed

section \<open>Properties of the assignment workflow\<close>

lemma getShiftMinutes_range:
  "getShiftMinutes s e = NaN \<or>
   (\<exists>n::int. 0 \<le> n \<and> n \<le> 1439 \<and> getShiftMinutes s e = Fin (of_int n))"
proof (cases "toMinutes s = NaN \<or> toMinutes e = NaN")
  case True
  then show ?thesis by (simp add: getShiftMinutes_NaN_iff)
next
  case False
  then obtain a b :: int where a: "0 \<le> a" "a \<le> 1439" "toMinutes s = Fin (of_int a)"
    and b: "0 \<le> b" "b \<le> 1439" "toMinutes e = Fin (of_int b)"
    using toMinutes_range [of s] toMinutes_range [of e] by auto
  have "getShiftMinutes s e = Fin (of_int (if b < a then b - a + 1440 else b - a))"
    using getShiftMinutes_Fin [OF a(3) b(3)] by simp
  moreover have "0 \<le> (if b < a then b - a + 1440 else b - a)"
    "(if b < a then b - a + 1440 else b - a) \<le> 1439"
    using a b by auto
  ultimately show ?thesis by blast
qed

lemma getShiftMinutes_zero_iff:
  assumes "toMinutes s \<noteq> NaN" "toMinutes e \<noteq> NaN"
  shows "getShiftMinutes s e = Fin 0 \<longleftrightarrow> toMinutes s = toMinutes e"
proof -
  obtain a b :: int where a: "0 \<le> a" "a \<le> 1439" "toMinutes s = Fin (of_int a)"
    and b: "0 \<le> b" "b \<le> 1439" "toMinutes e = Fin (of_int b)"
    using assms toMinutes_range [of s] toMinutes_range [of e] by auto
  have "getShiftMinutes s e = Fin (of_int (if b < a then b - a + 1440 else b - a))"
    using getShiftMinutes_Fin [OF a(3) b(3)] by simp
  moreover have "(if b < a then b - a + 1440 else b - a) = 0 \<longleftrightarrow> a = b"
    using a b by auto
  ultimately show ?thesis
    using a(3) b(3) by (simp del: of_int_diff of_int_add)
qed

lemma minutesOf_int: "\<exists>n::int. minutesOf (getShiftMinutes s e) = of_int n"
proof -
  have "minutesOf (getShiftMinutes s e) = of_int 0 \<or>
      (\<exists>n::int. minutesOf (getShiftMinutes s e) = of_int n)"
    using getShiftMinutes_range [of s e] by (auto simp: minutesOf_def)
  then show ?thesis by blast
qed

lemma sum_minutes_int:
  "\<exists>n::int. sum_list (map (\<lambda>s. minutesOf (shiftDuration s)) xs) = of_int n"
proof (induction xs)
  case Nil
  have "sum_list (map (\<lambda>s. minutesOf (shiftDuration s)) []) = of_int 0" by simp
  then show ?case by blast
next
  case (Cons x xs)
  obtain n :: int where n: "sum_list (map (\<lambda>s. minutesOf (shiftDuration s)) xs) = of_int n"
    using Cons.IH by blast
  obtain k :: int where k: "minutesOf (shiftDuration x) = of_int k"
    using minutesOf_int [of "startTime x" "endTime x"] by (auto simp: shiftDuration_def)
  have "sum_list (map (\<lambda>s. minutesOf (shiftDuration s)) (x # xs)) = of_int (k + n)"
    by (simp add: n k)
  then show ?case by blast
qed

lemma validDuration_cases:
  "validDuration n \<Longrightarrow> \<exists>m. n = Fin m \<and> 0 < m \<and> minutesOf n = m"
  by (cases n) (simp_all add: validDuration_def minutesOf_def)

lemma sumScheduled_all_valid:
  "list_all (\<lambda>s. validDuration (shiftDuration s)) (filter (\<lambda>s. date s = d) xs) \<Longrightarrow>
   sumScheduled d xs acc k =
     (Some (acc + sum_list (map (\<lambda>s. minutesOf (shiftDuration s)) (filter (\<lambda>s. date s = d) xs))),
      k + length (filter (\<lambda>s. date s = d) xs))"
proof (induction xs arbitrary: acc k)
  case Nil
  then show ?case by simp
next
  case (Cons x xs)
  show ?case
  proof (cases "date x = d")
    case True
    with Cons.prems obtain m where m: "getShiftMinutes (startTime x) (endTime x) = Fin m" "0 < m"
      "minutesOf (shiftDuration x) = m"
      using validDuration_cases [of "shiftDuration x"] by (auto simp: shiftDuration_def)
    from Cons.prems True have rest:
      "list_all (\<lambda>s. validDuration (shiftDuration s)) (filter (\<lambda>s. date s = d) xs)"
      by simp
    show ?thesis
      using True m Cons.IH [OF rest] by (simp add: add.assoc)
  next
    case False
    with Cons show ?thesis by simp
  qed
qed

lemma sumScheduled_some_invalid:
  "\<not> list_all (\<lambda>s. validDuration (shiftDuration s)) (filter (\<lambda>s. date s = d) xs) \<Longrightarrow>
   fst (sumScheduled d xs acc k) = None"
proof (induction xs arbitrary: acc k)
  case Nil
  then show ?case by simp
next
  case (Cons x xs)
  then show ?case
    by (cases "getShiftMinutes (startTime x) (endTime x)")
      (auto simp: shiftDuration_def validDuration_def)
qed

lemma greater_floor:
  "js_greater (Fin (of_int t)) (Math_floor c) \<longleftrightarrow> js_greater (Fin (of_int t)) c"
  by (cases c) (simp_all add: floor_less_iff)

lemma pow2_pos: "0 < pow2 k"
  by (simp add: pow2_def)

lemma ilog2_bounds:
  assumes "0 < x"
  shows "pow2 (ilog2 x) \<le> x \<and> x < pow2 (ilog2 x + 1)"
proof (cases "1 \<le> x")
  case True
  define n where "n = \<lfloor>x\<rfloor>"
  define b where "b = bitlen n"
  have "1 \<le> n"
    using True by (simp add: n_def le_floor_iff)
  moreover have "of_int n \<le> x" "x < of_int n + 1"
    unfolding n_def by linarith+
  ultimately have n: "1 \<le> n" "of_int n \<le> x" "x < of_int n + 1" .
  then have bounds: "2 ^ nat (b - 1) \<le> n" "n < 2 ^ nat b"
    using bitlen_bounds [of n] by (simp_all add: b_def)
  have b: "1 \<le> b"
    using n(1) bitlen_eq_zero_iff [of n] bitlen_nonneg [of n] by (simp add: b_def)
  have e: "ilog2 x = b - 1"
    using True by (simp add: ilog2_def n_def b_def)
  have "(2::rat) ^ nat (b - 1) = of_int (2 ^ nat (b - 1))"
    by simp
  also have "\<dots> \<le> of_int n"
    using bounds(1) by (simp only: of_int_le_iff)
  also note n(2)
  finally have "(2::rat) ^ nat (b - 1) \<le> x" .
  then have lower: "pow2 (b - 1) \<le> x"
    using b by (simp add: pow2_def)
  have "n + 1 \<le> 2 ^ nat b"
    using bounds(2) by simp
  then have "(of_int (n + 1) :: rat) \<le> of_int (2 ^ nat b)"
    by (simp only: of_int_le_iff)
  then have "x < 2 ^ nat b"
    using n(3) by simp
  then have upper: "x < pow2 (b - 1 + 1)"
    using b by (simp add: pow2_def)
  from lower upper show ?thesis
    by (simp only: e)
next
  case False
  define y where "y = 1 / x"
  define m where "m = \<lceil>y\<rceil> - 1"
  define b where "b = bitlen m"
  have y: "1 < y"
    using assms False by (simp add: y_def)
  have "1 < \<lceil>y\<rceil>"
    using y by (simp add: less_ceiling_iff)
  then have "1 \<le> m"
    by (simp add: m_def)
  moreover have "of_int m < y" "y \<le> of_int m + 1"
    unfolding m_def by linarith+
  ultimately have m: "1 \<le> m" "of_int m < y" "y \<le> of_int m + 1" .
  then have bounds: "2 ^ nat (b - 1) \<le> m" "m < 2 ^ nat b"
    using bitlen_bounds [of m] by (simp_all add: b_def)
  have b: "1 \<le> b"
    using m(1) bitlen_eq_zero_iff [of m] bitlen_nonneg [of m] by (simp add: b_def)
  have e: "ilog2 x = - b"
    using False by (simp add: ilog2_def y_def m_def b_def)
  have x: "x = 1 / y"
    by (simp add: y_def)
  have "m + 1 \<le> 2 ^ nat b"
    using bounds(2) by simp
  then have "(of_int (m + 1) :: rat) \<le> of_int (2 ^ nat b)"
    by (simp only: of_int_le_iff)
  then have "y \<le> 2 ^ nat b"
    using m(3) by simp
  then have "1 / 2 ^ nat b \<le> 1 / y"
    using y by (simp add: frac_le)
  then have lower: "pow2 (- b) \<le> x"
    using b by (simp add: pow2_def x)
  have "(2::rat) ^ nat (b - 1) = of_int (2 ^ nat (b - 1))"
    by simp
  also have "\<dots> \<le> of_int m"
    using bounds(1) by (simp only: of_int_le_iff)
  also note m(2)
  finally have "2 ^ nat (b - 1) < y" .
  then have less: "1 / y < 1 / 2 ^ nat (b - 1)"
    by (simp add: frac_less2)
  have upper: "x < pow2 (- b + 1)"
  proof (cases "b = 1")
    case True
    with less show ?thesis by (simp add: pow2_def x)
  next
    case False
    with b have "- b + 1 < 0" and "nat (- (- b + 1)) = nat (b - 1)"
      by simp_all
    with less show ?thesis by (simp add: pow2_def x)
  qed
  from lower upper show ?thesis
    by (simp only: e)
qed

lemma roundHalfEven_near: "\<bar>of_int (roundHalfEven y) - y\<bar> \<le> 1 / 2"
proof -
  have "of_int \<lfloor>y\<rfloor> \<le> y" "y < of_int \<lfloor>y\<rfloor> + 1"
    by linarith+
  then show ?thesis
    by (auto simp: roundHalfEven_def Let_def)
qed

lemma cap_8: "js_times (toBinary64 8) (Fin 60) = Fin 480"
  by code_simp

lemma cap_7: "js_times (toBinary64 7) (Fin 60) = Fin 420"
  by code_simp

lemma nearest12_binary64: "toBinary64 (6 / 5) = Fin nearest12 \<and> toBinary64 nearest12 = Fin nearest12"
  by code_simp


lemma cap_decimal: "js_times (toBinary64 (41 / 5)) (Fin 60) = Fin (492 - 1 / 2 ^ 44)"
  by code_simp



lemma assignShiftWith_no_employee:
  "findEmployee st empId = None \<Longrightarrow>
   assignShiftWith cfg st empId sid =
     \<lparr>message = ''Employee does not exist'', after = st, durationCalls = 0\<rparr>"
  by (simp add: assignShiftWith_def)

lemma assignShiftWith_no_shift:
  "findEmployee st empId \<noteq> None \<Longrightarrow> findShift st sid = None \<Longrightarrow>
   assignShiftWith cfg st empId sid =
     \<lparr>message = ''Shift does not exist'', after = st, durationCalls = 0\<rparr>"
  by (auto simp: assignShiftWith_def)

lemma assignShiftWith_assigned:
  "findEmployee st empId \<noteq> None \<Longrightarrow> findShift st sid \<noteq> None \<Longrightarrow>
   findAssignment st empId sid \<noteq> None \<Longrightarrow>
   assignShiftWith cfg st empId sid =
     \<lparr>message = ''Employee already assigned to shift'', after = st, durationCalls = 0\<rparr>"
  by (auto simp: assignShiftWith_def)

lemma assignShiftWith_bad_config:
  "findEmployee st empId \<noteq> None \<Longrightarrow> findShift st sid \<noteq> None \<Longrightarrow>
   findAssignment st empId sid = None \<Longrightarrow>
   \<not> validConfig (Number_val (maxDailyHours (cfg st))) \<Longrightarrow>
   assignShiftWith cfg st empId sid =
     \<lparr>message = ''Invalid config: maxDailyHours must be a positive number'', after = st,
      durationCalls = 0\<rparr>"
  by (auto simp: assignShiftWith_def validConfig_def split: jsnum.splits)

lemma assignShiftWith_bad_new:
  "findEmployee st empId \<noteq> None \<Longrightarrow> findShift st sid = Some sh \<Longrightarrow>
   findAssignment st empId sid = None \<Longrightarrow>
   validConfig (Number_val (maxDailyHours (cfg st))) \<Longrightarrow>
   \<not> validDuration (shiftDuration sh) \<Longrightarrow>
   assignShiftWith cfg st empId sid =
     \<lparr>message = ''Invalid shift time format'', after = st, durationCalls = 1\<rparr>"
  by (auto simp: assignShiftWith_def validConfig_def validDuration_def shiftDuration_def
      split: jsnum.splits)

lemma assignShiftWith_bad_scheduled:
  assumes "findEmployee st empId \<noteq> None" "findShift st sid = Some sh"
    "findAssignment st empId sid = None"
    "validConfig (Number_val (maxDailyHours (cfg st)))"
    "validDuration (shiftDuration sh)"
    "\<not> list_all (\<lambda>s. validDuration (shiftDuration s)) (sameDayShifts st empId (date sh))"
  shows "message (assignShiftWith cfg st empId sid) = ''Invalid shift time format'' \<and>
         after (assignShiftWith cfg st empId sid) = st"
proof -
  obtain h where h: "Number_val (maxDailyHours (cfg st)) = Fin h" "0 < h"
    using assms(4) by (auto simp: validConfig_def split: jsnum.splits)
  obtain m where m: "getShiftMinutes (startTime sh) (endTime sh) = Fin m" "0 < m"
    using validDuration_cases [OF assms(5)] by (auto simp: shiftDuration_def)
  obtain calls where "sumScheduled (date sh) (getEmployeeShifts st empId) 0 1 = (None, calls)"
    using sumScheduled_some_invalid [of "date sh" "getEmployeeShifts st empId" 0 1] assms(6)
    by (cases "sumScheduled (date sh) (getEmployeeShifts st empId) 0 1")
      (simp add: sameDayShifts_def)
  then show ?thesis
    using assms(1-3) h m by (auto simp: assignShiftWith_def)
qed

lemma assignShiftWith_cap:
  assumes "findEmployee st empId \<noteq> None" "findShift st sid = Some sh"
    "findAssignment st empId sid = None"
    "Number_val (maxDailyHours (cfg st)) = Fin h" "0 < h"
    "validDuration (shiftDuration sh)"
    "list_all (\<lambda>s. validDuration (shiftDuration s)) (sameDayShifts st empId (date sh))"
  shows "assignShiftWith cfg st empId sid =
     (if js_greater (Fin (scheduledMinutes st empId (date sh) + minutesOf (shiftDuration sh)))
           (js_times (toBinary64 h) (Fin 60))
      then \<lparr>message = ''Cannot assign shift: maxDailyHours limit would be exceeded.'',
            after = st, durationCalls = 1 + length (sameDayShifts st empId (date sh))\<rparr>
      else \<lparr>message = ''Ok'', after = addAssignment st empId sid,
            durationCalls = 1 + length (sameDayShifts st empId (date sh))\<rparr>)"
proof -
  obtain m where m: "getShiftMinutes (startTime sh) (endTime sh) = Fin m" "0 < m"
    "minutesOf (shiftDuration sh) = m"
    using validDuration_cases [OF assms(6)] by (auto simp: shiftDuration_def)
  have loop: "sumScheduled (date sh) (getEmployeeShifts st empId) 0 1 =
      (Some (scheduledMinutes st empId (date sh)), 1 + length (sameDayShifts st empId (date sh)))"
    using sumScheduled_all_valid [of "date sh" "getEmployeeShifts st empId" 0 1] assms(7)
    by (simp add: sameDayShifts_def scheduledMinutes_def)
  obtain n :: int where n: "scheduledMinutes st empId (date sh) = of_int n"
    using sum_minutes_int [of "sameDayShifts st empId (date sh)"]
    by (auto simp: scheduledMinutes_def)
  obtain k :: int where k: "m = of_int k"
    using minutesOf_int [of "startTime sh" "endTime sh"] m(3) by (auto simp: shiftDuration_def)
  have "scheduledMinutes st empId (date sh) + m = of_int (n + k)"
    by (simp add: n k)
  then have cmp: "js_greater (Fin (scheduledMinutes st empId (date sh) + m))
        (Math_floor (js_times (toBinary64 h) (Fin 60))) \<longleftrightarrow>
      js_greater (Fin (scheduledMinutes st empId (date sh) + m)) (js_times (toBinary64 h) (Fin 60))"
    using greater_floor [of "n + k" "js_times (toBinary64 h) (Fin 60)"] by simp
  show ?thesis
    using assms(1-5) m loop cmp by (auto simp: assignShiftWith_def)
qed

lemma readSettings_positive:
  "\<exists>h. maxDailyHours (readSettings st) = JNumber (Fin h) \<and> 0 < h"
  by (cases "Number_val (settings_maxDailyHours st)") (auto simp: readSettings_def Let_def)

lemma getConfig_valid: "validConfig (Number_val (maxDailyHours (getConfig st)))"
  using readSettings_positive [of st] by (auto simp: getConfig_def validConfig_def)

lemmas demo_defs = demoStore_def morningShift_def malformedShift_def nightShift_def
  emptyShift_def hourShift_def corruptStore_def noConfig_def findEmployee_def findShift_def
  findAssignment_def getEmployeeShifts_def getConfig_def readSettings_def addAssignment_def
  getShiftMinutes_def time_eval_defs Let_def cap_8 cap_7

lemma assignShiftWith_after:
  "after (assignShiftWith cfg st empId sid) =
     (if message (assignShiftWith cfg st empId sid) = ''Ok'' then addAssignment st empId sid else st)"
  by (auto simp: assignShiftWith_def Let_def split: option.splits jsnum.splits prod.splits)

lemma assignShiftWith_Ok_unassigned:
  "message (assignShiftWith cfg st empId sid) = ''Ok'' \<Longrightarrow> findAssignment st empId sid = None"
  by (auto simp: assignShiftWith_def Let_def split: option.splits jsnum.splits prod.splits if_splits)

lemma assignShiftWith_Ok_exist:
  "message (assignShiftWith cfg st empId sid) = ''Ok'' \<Longrightarrow>
   findEmployee st empId \<noteq> None \<and> findShift st sid \<noteq> None"
  by (auto simp: assignShiftWith_def Let_def split: option.splits jsnum.splits prod.splits if_splits)

lemma referencesExist_member:
  "referencesExist st \<Longrightarrow> (empId, sid) \<in> set (assignedPairs st) \<Longrightarrow>
   findEmployee st empId \<noteq> None \<and> findShift st sid \<noteq> None"
  by (auto simp: referencesExist_def assignedPairs_def list_all_iff)

lemma referencesExist_addAssignment:
  "referencesExist st \<Longrightarrow> findEmployee st empId \<noteq> None \<Longrightarrow> findShift st sid \<noteq> None \<Longrightarrow>
   referencesExist (addAssignment st empId sid)"
  by (simp add: referencesExist_def addAssignment_def findEmployee_def findShift_def)

lemma referencesExist_after:
  "referencesExist st \<Longrightarrow> referencesExist (after (assignShiftWith cfg st empId sid))"
  using assignShiftWith_Ok_exist [of cfg st empId sid]
  by (simp add: assignShiftWith_after referencesExist_addAssignment)

lemma findAssignment_None_iff:
  "findAssignment st empId sid = None \<longleftrightarrow> (empId, sid) \<notin> set (assignedPairs st)"
  by (auto simp: findAssignment_def assignedPairs_def find_None_iff)

lemma assignedPairs_addAssignment:
  "assignedPairs (addAssignment st empId sid) = assignedPairs st @ [(empId, sid)]"
  by (simp add: assignedPairs_def addAssignment_def)

text \<open>
  Claim C6. Whenever \<open>assignShift\<close> returns a message other than \<open>"Ok"\<close> the store is
  unchanged; when it returns \<open>"Ok"\<close> the store afterwards is the store before with
  exactly one assignment record, that of the given employee and shift, appended to the
  assignments file, and nothing else changed.
\<close>

theorem assignShift_failure_keeps_store:
  "(message (assignShift st empId sid) \<noteq> ''Ok'' \<longrightarrow> after (assignShift st empId sid) = st) \<and>
   (message (assignShift st empId sid) = ''Ok'' \<longrightarrow>
      after (assignShift st empId sid) =
        st\<lparr>assignmentsFile := assignmentsFile st @ [\<lparr>a_employeeId = empId, a_shiftId = sid\<rparr>]\<rparr>)"
  using assignShiftWith_after [of getConfig st empId sid]
  by (simp add: assignShift_def addAssignment_def)

text \<open>
  A rejected call (cap of 7 hours) and an accepted call (cap of 8 hours) on the example store.
\<close>

theorem assignShift_failure_keeps_store_witness:
  "message (assignShift (demoStore 7) (js ''E001'') (js ''S002'')) \<noteq> ''Ok'' \<and>
   after (assignShift (demoStore 7) (js ''E001'') (js ''S002'')) = demoStore 7 \<and>
   message (assignShift (demoStore 8) (js ''E001'') (js ''S002'')) = ''Ok'' \<and>
   after (assignShift (demoStore 8) (js ''E001'') (js ''S002'')) =
     (demoStore 8)\<lparr>assignmentsFile := assignmentsFile (demoStore 8) @
        [\<lparr>a_employeeId = js ''E001'', a_shiftId = js ''S002''\<rparr>]\<rparr>"
proof -
  have no: "message (assignShift (demoStore 7) (js ''E001'') (js ''S002'')) =
      ''Cannot assign shift: maxDailyHours limit would be exceeded.''"
    by (simp add: assignShift_def assignShiftWith_def demo_defs)
  have ok: "message (assignShift (demoStore 8) (js ''E001'') (js ''S002'')) = ''Ok''"
    by (simp add: assignShift_def assignShiftWith_def demo_defs)
  show ?thesis
    using assignShift_failure_keeps_store [of "demoStore 7" "js ''E001''" "js ''S002''"]
      assignShift_failure_keeps_store [of "demoStore 8" "js ''E001''" "js ''S002''"] no ok
    by simp
qed

text \<open>
  Claim C3. If the (employeeId, shiftId) pairs of the assignments file are pairwise
  distinct before a call of \<open>assignShift\<close>, they are afterwards. A call with a pair that
  is already in the file is rejected and changes nothing, with the message
  \<open>"Employee already assigned to shift"\<close> when the employee and the shift exist (the
  two existence checks come first), hence always in a store whose assignments refer
  to existing employees and shifts, a property that \<open>assignShift\<close> preserves. A call
  that returns \<open>"Ok"\<close> was made with a pair that was absent, and appends exactly that
  pair.
\<close>

theorem assignShift_pairs_unique:
  "(distinct (assignedPairs st) \<longrightarrow> distinct (assignedPairs (after (assignShift st empId sid)))) \<and>
   ((empId, sid) \<in> set (assignedPairs st) \<longrightarrow>
      message (assignShift st empId sid) \<noteq> ''Ok'' \<and> after (assignShift st empId sid) = st) \<and>
   ((empId, sid) \<in> set (assignedPairs st) \<and> findEmployee st empId \<noteq> None \<and>
    findShift st sid \<noteq> None \<longrightarrow>
      message (assignShift st empId sid) = ''Employee already assigned to shift'') \<and>
   (referencesExist st \<and> (empId, sid) \<in> set (assignedPairs st) \<longrightarrow>
      message (assignShift st empId sid) = ''Employee already assigned to shift'') \<and>
   (referencesExist st \<longrightarrow> referencesExist (after (assignShift st empId sid))) \<and>
   (message (assignShift st empId sid) = ''Ok'' \<longrightarrow>
      (empId, sid) \<notin> set (assignedPairs st) \<and>
      assignedPairs (after (assignShift st empId sid)) = assignedPairs st @ [(empId, sid)])"
proof -
  let ?r = "assignShiftWith getConfig st empId sid"
  have after: "after ?r = (if message ?r = ''Ok'' then addAssignment st empId sid else st)"
    by (rule assignShiftWith_after)
  have fresh: "message ?r = ''Ok'' \<Longrightarrow> (empId, sid) \<notin> set (assignedPairs st)"
    using assignShiftWith_Ok_unassigned [of getConfig st empId sid]
    by (simp add: findAssignment_None_iff)
  have dup: "(empId, sid) \<in> set (assignedPairs st) \<Longrightarrow> findEmployee st empId \<noteq> None \<Longrightarrow>
      findShift st sid \<noteq> None \<Longrightarrow> message ?r = ''Employee already assigned to shift''"
    using assignShiftWith_assigned [of st empId sid getConfig]
    by (simp add: findAssignment_None_iff)
  have inv: "distinct (assignedPairs st) \<Longrightarrow> distinct (assignedPairs (after ?r))"
    using after fresh by (simp add: assignedPairs_addAssignment)
  have dup': "referencesExist st \<Longrightarrow> (empId, sid) \<in> set (assignedPairs st) \<Longrightarrow>
      message ?r = ''Employee already assigned to shift''"
    using dup referencesExist_member [of st empId sid] by simp
  have refs: "referencesExist st \<Longrightarrow> referencesExist (after ?r)"
    by (rule referencesExist_after)
  have c1: "distinct (assignedPairs st) \<longrightarrow> distinct (assignedPairs (after ?r))"
    using inv by (rule impI)
  have c2: "(empId, sid) \<in> set (assignedPairs st) \<longrightarrow> message ?r \<noteq> ''Ok'' \<and> after ?r = st"
  proof
    assume "(empId, sid) \<in> set (assignedPairs st)"
    with fresh have "message ?r \<noteq> ''Ok''" by (rule_tac notI) simp
    with after show "message ?r \<noteq> ''Ok'' \<and> after ?r = st" by simp
  qed
  have c3: "(empId, sid) \<in> set (assignedPairs st) \<and> findEmployee st empId \<noteq> None \<and>
      findShift st sid \<noteq> None \<longrightarrow> message ?r = ''Employee already assigned to shift''"
  proof
    assume "(empId, sid) \<in> set (assignedPairs st) \<and> findEmployee st empId \<noteq> None \<and>
      findShift st sid \<noteq> None"
    then show "message ?r = ''Employee already assigned to shift''"
      using dup by (elim conjE)
  qed
  have c4: "referencesExist st \<and> (empId, sid) \<in> set (assignedPairs st) \<longrightarrow>
      message ?r = ''Employee already assigned to shift''"
  proof
    assume "referencesExist st \<and> (empId, sid) \<in> set (assignedPairs st)"
    then show "message ?r = ''Employee already assigned to shift''"
      using dup' by (elim conjE)
  qed
  have c5: "referencesExist st \<longrightarrow> referencesExist (after ?r)"
    using refs by (rule impI)
  have c6: "message ?r = ''Ok'' \<longrightarrow> (empId, sid) \<notin> set (assignedPairs st) \<and>
      assignedPairs (after ?r) = assignedPairs st @ [(empId, sid)]"
  proof
    assume ok: "message ?r = ''Ok''"
    then have "after ?r = addAssignment st empId sid"
      using after by simp
    with fresh [OF ok] show "(empId, sid) \<notin> set (assignedPairs st) \<and>
        assignedPairs (after ?r) = assignedPairs st @ [(empId, sid)]"
      by (simp add: assignedPairs_addAssignment)
  qed
  from c1 c2 c3 c4 c5 c6 show ?thesis
    unfolding assignShift_def by (intro conjI)
qed

text \<open>
  On the example store: the assigned pair (E001, S001) is rejected, the new pair
  (E001, S002) is appended.
\<close>

theorem assignShift_pairs_unique_witness:
  "distinct (assignedPairs (demoStore 8)) \<and>
   distinct (assignedPairs (after (assignShift (demoStore 8) (js ''E001'') (js ''S002'')))) \<and>
   referencesExist (demoStore 8) \<and>
   referencesExist (after (assignShift (demoStore 8) (js ''E001'') (js ''S002''))) \<and>
   (js ''E001'', js ''S001'') \<in> set (assignedPairs (demoStore 8)) \<and>
   findEmployee (demoStore 8) (js ''E001'') \<noteq> None \<and>
   findShift (demoStore 8) (js ''S001'') \<noteq> None \<and>
   message (assignShift (demoStore 8) (js ''E001'') (js ''S001'')) =
     ''Employee already assigned to shift'' \<and>
   after (assignShift (demoStore 8) (js ''E001'') (js ''S001'')) = demoStore 8 \<and>
   message (assignShift (demoStore 8) (js ''E001'') (js ''S002'')) = ''Ok'' \<and>
   (js ''E001'', js ''S002'') \<notin> set (assignedPairs (demoStore 8)) \<and>
   assignedPairs (after (assignShift (demoStore 8) (js ''E001'') (js ''S002''))) =
     assignedPairs (demoStore 8) @ [(js ''E001'', js ''S002'')]"
proof -
  have pairs: "assignedPairs (demoStore 8) = [(js ''E001'', js ''S001'')]"
    by (simp add: assignedPairs_def demoStore_def)
  have d: "distinct (assignedPairs (demoStore 8))"
    by (simp add: pairs)
  have mem: "(js ''E001'', js ''S001'') \<in> set (assignedPairs (demoStore 8))"
    by (simp add: pairs)
  have ex: "findEmployee (demoStore 8) (js ''E001'') \<noteq> None"
    "findShift (demoStore 8) (js ''S001'') \<noteq> None"
    by (simp_all add: demo_defs)
  have ok: "message (assignShift (demoStore 8) (js ''E001'') (js ''S002'')) = ''Ok''"
    by (simp add: assignShift_def assignShiftWith_def demo_defs)
  have refs: "referencesExist (demoStore 8)"
    by (simp add: referencesExist_def demo_defs)
  show ?thesis
    using assignShift_pairs_unique [of "demoStore 8" "js ''E001''" "js ''S002''"]
      assignShift_pairs_unique [of "demoStore 8" "js ''E001''" "js ''S001''"] d mem ex ok refs
    by simp
qed

text \<open>
  Claim C7. \<open>readSettings\<close> always returns a \<open>maxDailyHours\<close> that is a finite positive
  number: the default 8 when the configured value is missing or does not convert to a
  finite positive number, the converted value otherwise. \<open>getConfig\<close> is
  \<open>readSettings\<close>, so \<open>assignShift\<close> never returns
  \<open>"Invalid config: maxDailyHours must be a positive number"\<close>.
\<close>

theorem readSettings_safe_default:
  "(\<exists>h. maxDailyHours (readSettings st) = JNumber (Fin h) \<and> 0 < h) \<and>
   (settings_maxDailyHours st = JUndefined \<longrightarrow>
      maxDailyHours (readSettings st) = JNumber (Fin 8)) \<and>
   (\<not> validConfig (Number_val (settings_maxDailyHours st)) \<longrightarrow>
      maxDailyHours (readSettings st) = JNumber (Fin 8)) \<and>
   (validConfig (Number_val (settings_maxDailyHours st)) \<longrightarrow>
      maxDailyHours (readSettings st) = JNumber (Number_val (settings_maxDailyHours st))) \<and>
   getConfig st = readSettings st \<and>
   message (assignShift st empId sid) \<noteq>
     ''Invalid config: maxDailyHours must be a positive number''"
proof -
  have pos: "\<exists>h. maxDailyHours (readSettings st) = JNumber (Fin h) \<and> 0 < h"
    by (rule readSettings_positive)
  have missing: "settings_maxDailyHours st = JUndefined \<Longrightarrow>
      maxDailyHours (readSettings st) = JNumber (Fin 8)"
    by (simp add: readSettings_def)
  have bad: "\<not> validConfig (Number_val (settings_maxDailyHours st)) \<Longrightarrow>
      maxDailyHours (readSettings st) = JNumber (Fin 8)"
    by (cases "Number_val (settings_maxDailyHours st)")
      (auto simp: readSettings_def validConfig_def Let_def)
  have good: "validConfig (Number_val (settings_maxDailyHours st)) \<Longrightarrow>
      maxDailyHours (readSettings st) = JNumber (Number_val (settings_maxDailyHours st))"
    by (cases "Number_val (settings_maxDailyHours st)")
      (auto simp: readSettings_def validConfig_def Let_def)
  obtain h where h: "Number_val (maxDailyHours (getConfig st)) = Fin h" "0 < h"
    using pos by (auto simp: getConfig_def)
  have unreachable: "message (assignShiftWith getConfig st empId sid) \<noteq>
      ''Invalid config: maxDailyHours must be a positive number''"
    using h by (auto simp: assignShiftWith_def Let_def split: option.splits jsnum.splits prod.splits)
  show ?thesis
    using pos missing bad good unreachable by (simp add: getConfig_def assignShift_def)
qed

text \<open>
  A missing value and the value -3 give the default 8; the value 7.5 is kept.
\<close>

theorem readSettings_safe_default_witness:
  "settings_maxDailyHours (demoStore 8\<lparr>settings_maxDailyHours := JUndefined\<rparr>) = JUndefined \<and>
   maxDailyHours (readSettings (demoStore 8\<lparr>settings_maxDailyHours := JUndefined\<rparr>)) =
     JNumber (Fin 8) \<and>
   \<not> validConfig (Number_val (settings_maxDailyHours (demoStore (- 3)))) \<and>
   maxDailyHours (readSettings (demoStore (- 3))) = JNumber (Fin 8) \<and>
   validConfig (Number_val (settings_maxDailyHours (demoStore (15 / 2)))) \<and>
   maxDailyHours (readSettings (demoStore (15 / 2))) = JNumber (Fin (15 / 2))"
  using readSettings_safe_default [of "demoStore 8\<lparr>settings_maxDailyHours := JUndefined\<rparr>"]
    readSettings_safe_default [of "demoStore (- 3)"]
    readSettings_safe_default [of "demoStore (15 / 2)"]
  by (simp add: demoStore_def validConfig_def)

lemmas spec_defs = shiftDuration_def validDuration_def minutesOf_def sameDayShifts_def
  scheduledMinutes_def validConfig_def




text \<open>
  Claim C2, with the message of the in-loop validation. \<open>assignShift\<close> checks in
  this order, and stops at the first check that fails: the employee exists, the shift
  exists, the pair is not yet assigned, the configured \<open>maxDailyHours\<close> is a finite
  positive number, the new shift has a valid positive duration, and the daily cap,
  which first validates every shift already assigned on that date and then compares
  the sum with the binary64 product \<open>maxDailyHours * 60\<close>. The six messages and
  \<open>"Ok"\<close> are pairwise distinct, and each check returns its own, except that the
  sixth check reports a malformed shift already assigned on that date with the
  message of the fifth, \<open>"Invalid shift time format"\<close>. For an employee or a shift that
  does not exist the call is rejected without a single call of \<open>getShiftMinutes\<close>.
  The configuration source is arbitrary here; \<open>assignShift\<close> is the instance with
  \<open>getConfig\<close>.
\<close>

theorem assignShift_checks_in_order:
  "(findEmployee st empId = None \<longrightarrow>
      assignShiftWith cfg st empId sid =
        \<lparr>message = ''Employee does not exist'', after = st, durationCalls = 0\<rparr>) \<and>
   (findEmployee st empId \<noteq> None \<and> findShift st sid = None \<longrightarrow>
      assignShiftWith cfg st empId sid =
        \<lparr>message = ''Shift does not exist'', after = st, durationCalls = 0\<rparr>) \<and>
   (findEmployee st empId \<noteq> None \<and> findShift st sid = Some sh \<and>
    findAssignment st empId sid \<noteq> None \<longrightarrow>
      message (assignShiftWith cfg st empId sid) = ''Employee already assigned to shift'') \<and>
   (findEmployee st empId \<noteq> None \<and> findShift st sid = Some sh \<and>
    findAssignment st empId sid = None \<and>
    \<not> validConfig (Number_val (maxDailyHours (cfg st))) \<longrightarrow>
      message (assignShiftWith cfg st empId sid) =
        ''Invalid config: maxDailyHours must be a positive number'') \<and>
   (findEmployee st empId \<noteq> None \<and> findShift st sid = Some sh \<and>
    findAssignment st empId sid = None \<and>
    validConfig (Number_val (maxDailyHours (cfg st))) \<and>
    \<not> validDuration (shiftDuration sh) \<longrightarrow>
      message (assignShiftWith cfg st empId sid) = ''Invalid shift time format'') \<and>
   (findEmployee st empId \<noteq> None \<and> findShift st sid = Some sh \<and>
    findAssignment st empId sid = None \<and>
    validConfig (Number_val (maxDailyHours (cfg st))) \<and>
    validDuration (shiftDuration sh) \<and>
    \<not> list_all (\<lambda>s. validDuration (shiftDuration s)) (sameDayShifts st empId (date sh)) \<longrightarrow>
      message (assignShiftWith cfg st empId sid) = ''Invalid shift time format'') \<and>
   (findEmployee st empId \<noteq> None \<and> findShift st sid = Some sh \<and>
    findAssignment st empId sid = None \<and>
    Number_val (maxDailyHours (cfg st)) = Fin h \<and> 0 < h \<and>
    validDuration (shiftDuration sh) \<and>
    list_all (\<lambda>s. validDuration (shiftDuration s)) (sameDayShifts st empId (date sh)) \<and>
    js_greater (Fin (scheduledMinutes st empId (date sh) + minutesOf (shiftDuration sh)))
      (js_times (toBinary64 h) (Fin 60)) \<longrightarrow>
      message (assignShiftWith cfg st empId sid) =
        ''Cannot assign shift: maxDailyHours limit would be exceeded.'') \<and>
   (findEmployee st empId \<noteq> None \<and> findShift st sid = Some sh \<and>
    findAssignment st empId sid = None \<and>
    Number_val (maxDailyHours (cfg st)) = Fin h \<and> 0 < h \<and>
    validDuration (shiftDuration sh) \<and>
    list_all (\<lambda>s. validDuration (shiftDuration s)) (sameDayShifts st empId (date sh)) \<and>
    \<not> js_greater (Fin (scheduledMinutes st empId (date sh) + minutesOf (shiftDuration sh)))
      (js_times (toBinary64 h) (Fin 60)) \<longrightarrow>
      message (assignShiftWith cfg st empId sid) = ''Ok'') \<and>
   distinct [''Employee does not exist'', ''Shift does not exist'',
     ''Employee already assigned to shift'',
     ''Invalid config: maxDailyHours must be a positive number'',
     ''Invalid shift time format'',
     ''Cannot assign shift: maxDailyHours limit would be exceeded.'', ''Ok''] \<and>
   assignShift st empId sid = assignShiftWith getConfig st empId sid"
proof -
  have c1: "findEmployee st empId = None \<longrightarrow>
      assignShiftWith cfg st empId sid =
        \<lparr>message = ''Employee does not exist'', after = st, durationCalls = 0\<rparr>"
    by (simp add: assignShiftWith_no_employee)
  have c2: "findEmployee st empId \<noteq> None \<and> findShift st sid = None \<longrightarrow>
      assignShiftWith cfg st empId sid =
        \<lparr>message = ''Shift does not exist'', after = st, durationCalls = 0\<rparr>"
    by (simp add: assignShiftWith_no_shift)
  have c3: "findEmployee st empId \<noteq> None \<and> findShift st sid = Some sh \<and>
      findAssignment st empId sid \<noteq> None \<longrightarrow>
      message (assignShiftWith cfg st empId sid) = ''Employee already assigned to shift''"
    by (simp add: assignShiftWith_assigned)
  have c4: "findEmployee st empId \<noteq> None \<and> findShift st sid = Some sh \<and>
      findAssignment st empId sid = None \<and>
      \<not> validConfig (Number_val (maxDailyHours (cfg st))) \<longrightarrow>
      message (assignShiftWith cfg st empId sid) =
        ''Invalid config: maxDailyHours must be a positive number''"
    by (simp add: assignShiftWith_bad_config)
  have c5: "findEmployee st empId \<noteq> None \<and> findShift st sid = Some sh \<and>
      findAssignment st empId sid = None \<and>
      validConfig (Number_val (maxDailyHours (cfg st))) \<and>
      \<not> validDuration (shiftDuration sh) \<longrightarrow>
      message (assignShiftWith cfg st empId sid) = ''Invalid shift time format''"
    by (simp add: assignShiftWith_bad_new)
  have c5': "findEmployee st empId \<noteq> None \<and> findShift st sid = Some sh \<and>
      findAssignment st empId sid = None \<and>
      validConfig (Number_val (maxDailyHours (cfg st))) \<and>
      validDuration (shiftDuration sh) \<and>
      \<not> list_all (\<lambda>s. validDuration (shiftDuration s)) (sameDayShifts st empId (date sh)) \<longrightarrow>
      message (assignShiftWith cfg st empId sid) = ''Invalid shift time format''"
    using assignShiftWith_bad_scheduled [of st empId sid sh cfg] by blast
  have c6: "findEmployee st empId \<noteq> None \<and> findShift st sid = Some sh \<and>
      findAssignment st empId sid = None \<and>
      Number_val (maxDailyHours (cfg st)) = Fin h \<and> 0 < h \<and>
      validDuration (shiftDuration sh) \<and>
      list_all (\<lambda>s. validDuration (shiftDuration s)) (sameDayShifts st empId (date sh)) \<and>
      js_greater (Fin (scheduledMinutes st empId (date sh) + minutesOf (shiftDuration sh)))
        (js_times (toBinary64 h) (Fin 60)) \<longrightarrow>
      message (assignShiftWith cfg st empId sid) =
        ''Cannot assign shift: maxDailyHours limit would be exceeded.''"
    using assignShiftWith_cap [of st empId sid sh cfg h] by simp
  have c7: "findEmployee st empId \<noteq> None \<and> findShift st sid = Some sh \<and>
      findAssignment st empId sid = None \<and>
      Number_val (maxDailyHours (cfg st)) = Fin h \<and> 0 < h \<and>
      validDuration (shiftDuration sh) \<and>
      list_all (\<lambda>s. validDuration (shiftDuration s)) (sameDayShifts st empId (date sh)) \<and>
      \<not> js_greater (Fin (scheduledMinutes st empId (date sh) + minutesOf (shiftDuration sh)))
        (js_times (toBinary64 h) (Fin 60)) \<longrightarrow>
      message (assignShiftWith cfg st empId sid) = ''Ok''"
    using assignShiftWith_cap [of st empId sid sh cfg h] by simp
  have d: "distinct [''Employee does not exist'', ''Shift does not exist'',
     ''Employee already assigned to shift'',
     ''Invalid config: maxDailyHours must be a positive number'',
     ''Invalid shift time format'',
     ''Cannot assign shift: maxDailyHours limit would be exceeded.'', ''Ok'']"
    by simp
  have e: "assignShift st empId sid = assignShiftWith getConfig st empId sid"
    by (simp add: assignShift_def)
  from c1 c2 c3 c4 c5 c5' c6 c7 d e show ?thesis
    by (intro conjI)
qed

text \<open>
  One call for each of the eight outcomes, on the example stores.
\<close>

theorem assignShift_checks_in_order_witness:
  "findEmployee (demoStore 8) (js ''E002'') = None \<and>
   assignShiftWith getConfig (demoStore 8) (js ''E002'') (js ''S001'') =
     \<lparr>message = ''Employee does not exist'', after = demoStore 8, durationCalls = 0\<rparr> \<and>
   findEmployee (demoStore 8) (js ''E001'') \<noteq> None \<and>
   findShift (demoStore 8) (js ''S009'') = None \<and>
   assignShiftWith getConfig (demoStore 8) (js ''E001'') (js ''S009'') =
     \<lparr>message = ''Shift does not exist'', after = demoStore 8, durationCalls = 0\<rparr> \<and>
   findShift (demoStore 8) (js ''S001'') = Some morningShift \<and>
   findAssignment (demoStore 8) (js ''E001'') (js ''S001'') \<noteq> None \<and>
   message (assignShiftWith getConfig (demoStore 8) (js ''E001'') (js ''S001'')) =
     ''Employee already assigned to shift'' \<and>
   findShift (demoStore 8) (js ''S002'') = Some nightShift \<and>
   findAssignment (demoStore 8) (js ''E001'') (js ''S002'') = None \<and>
   \<not> validConfig (Number_val (maxDailyHours (noConfig (demoStore 8)))) \<and>
   message (assignShiftWith noConfig (demoStore 8) (js ''E001'') (js ''S002'')) =
     ''Invalid config: maxDailyHours must be a positive number'' \<and>
   findShift (demoStore 8) (js ''S003'') = Some emptyShift \<and>
   findAssignment (demoStore 8) (js ''E001'') (js ''S003'') = None \<and>
   validConfig (Number_val (maxDailyHours (getConfig (demoStore 8)))) \<and>
   \<not> validDuration (shiftDuration emptyShift) \<and>
   message (assignShiftWith getConfig (demoStore 8) (js ''E001'') (js ''S003'')) =
     ''Invalid shift time format'' \<and>
   findEmployee corruptStore (js ''E001'') \<noteq> None \<and>
   findShift corruptStore (js ''S005'') = Some hourShift \<and>
   findAssignment corruptStore (js ''E001'') (js ''S005'') = None \<and>
   validConfig (Number_val (maxDailyHours (getConfig corruptStore))) \<and>
   validDuration (shiftDuration hourShift) \<and>
   \<not> list_all (\<lambda>s. validDuration (shiftDuration s))
     (sameDayShifts corruptStore (js ''E001'') (date hourShift)) \<and>
   message (assignShiftWith getConfig corruptStore (js ''E001'') (js ''S005'')) =
     ''Invalid shift time format'' \<and>
   findEmployee (demoStore 7) (js ''E001'') \<noteq> None \<and>
   findShift (demoStore 7) (js ''S002'') = Some nightShift \<and>
   findAssignment (demoStore 7) (js ''E001'') (js ''S002'') = None \<and>
   Number_val (maxDailyHours (getConfig (demoStore 7))) = Fin 7 \<and>
   validDuration (shiftDuration nightShift) \<and>
   list_all (\<lambda>s. validDuration (shiftDuration s))
     (sameDayShifts (demoStore 7) (js ''E001'') (date nightShift)) \<and>
   js_greater (Fin (scheduledMinutes (demoStore 7) (js ''E001'') (date nightShift) +
     minutesOf (shiftDuration nightShift))) (js_times (toBinary64 7) (Fin 60)) \<and>
   message (assignShiftWith getConfig (demoStore 7) (js ''E001'') (js ''S002'')) =
     ''Cannot assign shift: maxDailyHours limit would be exceeded.'' \<and>
   Number_val (maxDailyHours (getConfig (demoStore 8))) = Fin 8 \<and>
   list_all (\<lambda>s. validDuration (shiftDuration s))
     (sameDayShifts (demoStore 8) (js ''E001'') (date nightShift)) \<and>
   \<not> js_greater (Fin (scheduledMinutes (demoStore 8) (js ''E001'') (date nightShift) +
     minutesOf (shiftDuration nightShift))) (js_times (toBinary64 8) (Fin 60)) \<and>
   message (assignShiftWith getConfig (demoStore 8) (js ''E001'') (js ''S002'')) = ''Ok''"
proof -
  have e8: "findEmployee (demoStore 8) (js ''E002'') = None"
    "findEmployee (demoStore 8) (js ''E001'') \<noteq> None"
    "findEmployee (demoStore 7) (js ''E001'') \<noteq> None"
    "findEmployee corruptStore (js ''E001'') \<noteq> None"
    by (simp_all add: demo_defs)
  have s8: "findShift (demoStore 8) (js ''S009'') = None"
    "findShift (demoStore 8) (js ''S001'') = Some morningShift"
    "findShift (demoStore 8) (js ''S002'') = Some nightShift"
    "findShift (demoStore 8) (js ''S003'') = Some emptyShift"
    "findShift corruptStore (js ''S005'') = Some hourShift"
    "findShift (demoStore 7) (js ''S002'') = Some nightShift"
    by (simp_all add: demo_defs)
  have a8: "findAssignment (demoStore 8) (js ''E001'') (js ''S001'') \<noteq> None"
    "findAssignment (demoStore 8) (js ''E001'') (js ''S002'') = None"
    "findAssignment (demoStore 8) (js ''E001'') (js ''S003'') = None"
    "findAssignment corruptStore (js ''E001'') (js ''S005'') = None"
    "findAssignment (demoStore 7) (js ''E001'') (js ''S002'') = None"
    by (simp_all add: demo_defs)
  have c8: "\<not> validConfig (Number_val (maxDailyHours (noConfig (demoStore 8))))"
    "validConfig (Number_val (maxDailyHours (getConfig (demoStore 8))))"
    "validConfig (Number_val (maxDailyHours (getConfig corruptStore)))"
    "Number_val (maxDailyHours (getConfig (demoStore 7))) = Fin 7"
    "Number_val (maxDailyHours (getConfig (demoStore 8))) = Fin 8"
    by (simp_all add: validConfig_def demo_defs)
  have d8: "\<not> validDuration (shiftDuration emptyShift)"
    "validDuration (shiftDuration hourShift)"
    "validDuration (shiftDuration nightShift)"
    by (simp_all add: spec_defs demo_defs)
  have l8: "\<not> list_all (\<lambda>s. validDuration (shiftDuration s))
      (sameDayShifts corruptStore (js ''E001'') (date hourShift))"
    "list_all (\<lambda>s. validDuration (shiftDuration s))
      (sameDayShifts (demoStore 7) (js ''E001'') (date nightShift))"
    "list_all (\<lambda>s. validDuration (shiftDuration s))
      (sameDayShifts (demoStore 8) (js ''E001'') (date nightShift))"
    by (simp_all add: spec_defs demo_defs)
  have m8: "js_greater (Fin (scheduledMinutes (demoStore 7) (js ''E001'') (date nightShift) +
      minutesOf (shiftDuration nightShift))) (js_times (toBinary64 7) (Fin 60))"
    "\<not> js_greater (Fin (scheduledMinutes (demoStore 8) (js ''E001'') (date nightShift) +
      minutesOf (shiftDuration nightShift))) (js_times (toBinary64 8) (Fin 60))"
    by (simp_all add: spec_defs demo_defs)
  note facts = e8 s8 a8 c8 d8 l8 m8
  show ?thesis
    using
      assignShift_checks_in_order [where st = "demoStore 8" and empId = "js ''E002''"
        and sid = "js ''S001''" and cfg = getConfig]
      assignShift_checks_in_order [where st = "demoStore 8" and empId = "js ''E001''"
        and sid = "js ''S009''" and cfg = getConfig]
      assignShift_checks_in_order [where st = "demoStore 8" and empId = "js ''E001''"
        and sid = "js ''S001''" and cfg = getConfig and sh = morningShift]
      assignShift_checks_in_order [where st = "demoStore 8" and empId = "js ''E001''"
        and sid = "js ''S002''" and cfg = noConfig and sh = nightShift]
      assignShift_checks_in_order [where st = "demoStore 8" and empId = "js ''E001''"
        and sid = "js ''S003''" and cfg = getConfig and sh = emptyShift]
      assignShift_checks_in_order [where st = corruptStore and empId = "js ''E001''"
        and sid = "js ''S005''" and cfg = getConfig and sh = hourShift]
      assignShift_checks_in_order [where st = "demoStore 7" and empId = "js ''E001''"
        and sid = "js ''S002''" and cfg = getConfig and sh = nightShift and h = 7]
      assignShift_checks_in_order [where st = "demoStore 8" and empId = "js ''E001''"
        and sid = "js ''S002''" and cfg = getConfig and sh = nightShift and h = 8]
      facts
    by simp
qed

text \<open>
  The claim as stated fails where it says that each failure has a distinct message.
  On the example store the new shift \<open>S003\<close> has length zero and fails the fifth
  check. On \<open>corruptStore\<close> the new shift \<open>S005\<close> passes the fifth check and the sixth
  check finds the malformed shift assigned on that date. Both calls return
  \<open>"Invalid shift time format"\<close>.
\<close>

theorem assignShift_checks_in_order_counterexample:
  "findEmployee (demoStore 8) (js ''E001'') \<noteq> None \<and>
   findShift (demoStore 8) (js ''S003'') = Some emptyShift \<and>
   findAssignment (demoStore 8) (js ''E001'') (js ''S003'') = None \<and>
   \<not> validDuration (shiftDuration emptyShift) \<and>
   message (assignShift (demoStore 8) (js ''E001'') (js ''S003'')) =
     ''Invalid shift time format'' \<and>
   findEmployee corruptStore (js ''E001'') \<noteq> None \<and>
   findShift corruptStore (js ''S005'') = Some hourShift \<and>
   findAssignment corruptStore (js ''E001'') (js ''S005'') = None \<and>
   validDuration (shiftDuration hourShift) \<and>
   \<not> list_all (\<lambda>s. validDuration (shiftDuration s))
     (sameDayShifts corruptStore (js ''E001'') (date hourShift)) \<and>
   message (assignShift corruptStore (js ''E001'') (js ''S005'')) =
     ''Invalid shift time format''"
proof -
  have n1: "findEmployee (demoStore 8) (js ''E001'') \<noteq> None"
    by (simp add: demo_defs)
  have n2: "findShift (demoStore 8) (js ''S003'') = Some emptyShift"
    by (simp add: demo_defs)
  have n3: "findAssignment (demoStore 8) (js ''E001'') (js ''S003'') = None"
    by (simp add: demo_defs)
  have n4: "\<not> validDuration (shiftDuration emptyShift)"
    by (simp add: spec_defs demo_defs)
  have n5: "message (assignShift (demoStore 8) (js ''E001'') (js ''S003'')) =
      ''Invalid shift time format''"
    by (simp add: assignShift_def assignShiftWith_def demo_defs)
  have l1: "findEmployee corruptStore (js ''E001'') \<noteq> None"
    by (simp add: demo_defs)
  have l2: "findShift corruptStore (js ''S005'') = Some hourShift"
    by (simp add: demo_defs)
  have l3: "findAssignment corruptStore (js ''E001'') (js ''S005'') = None"
    by (simp add: demo_defs)
  have l4: "validDuration (shiftDuration hourShift)"
    by (simp add: spec_defs demo_defs)
  have l5: "\<not> list_all (\<lambda>s. validDuration (shiftDuration s))
      (sameDayShifts corruptStore (js ''E001'') (date hourShift))"
    by (simp add: spec_defs demo_defs)
  have l6: "message (assignShift corruptStore (js ''E001'') (js ''S005'')) =
      ''Invalid shift time format''"
    by (simp add: assignShift_def assignShiftWith_def demo_defs)
  from n1 n2 n3 n4 n5 l1 l2 l3 l4 l5 l6 show ?thesis
    by (intro conjI)
qed

text \<open>
  Claim C9. For two times that both parse, \<open>getShiftMinutes\<close> returns a whole number
  between 0 and 1439, and it returns 0 exactly when the start and the end are the same
  minute of the day (so in particular when the two strings are equal). \<open>assignShift\<close>
  rejects a new shift of length zero with \<open>"Invalid shift time format"\<close>, after one
  duration computation and without changing the store: the same outcome as for a
  shift with a malformed time.
\<close>

theorem zero_length_shift_rejected:
  "(toMinutes s \<noteq> NaN \<and> toMinutes e \<noteq> NaN \<longrightarrow>
      (\<exists>n::int. 0 \<le> n \<and> n \<le> 1439 \<and> getShiftMinutes s e = Fin (of_int n)) \<and>
      (getShiftMinutes s e = Fin 0 \<longleftrightarrow> toMinutes s = toMinutes e)) \<and>
   (toMinutes s \<noteq> NaN \<longrightarrow> getShiftMinutes s s = Fin 0) \<and>
   (findEmployee st empId \<noteq> None \<and> findShift st sid = Some sh \<and>
    findAssignment st empId sid = None \<and>
    toMinutes (startTime sh) \<noteq> NaN \<and> toMinutes (startTime sh) = toMinutes (endTime sh) \<longrightarrow>
      assignShift st empId sid =
        \<lparr>message = ''Invalid shift time format'', after = st, durationCalls = 1\<rparr>) \<and>
   (findEmployee st empId \<noteq> None \<and> findShift st sid = Some sh \<and>
    findAssignment st empId sid = None \<and>
    (toMinutes (startTime sh) = NaN \<or> toMinutes (endTime sh) = NaN) \<longrightarrow>
      assignShift st empId sid =
        \<lparr>message = ''Invalid shift time format'', after = st, durationCalls = 1\<rparr>)"
proof -
  have range: "toMinutes s \<noteq> NaN \<and> toMinutes e \<noteq> NaN \<longrightarrow>
      (\<exists>n::int. 0 \<le> n \<and> n \<le> 1439 \<and> getShiftMinutes s e = Fin (of_int n))"
    using getShiftMinutes_range [of s e] getShiftMinutes_NaN_iff [of s e] by blast
  have zero: "toMinutes s \<noteq> NaN \<and> toMinutes e \<noteq> NaN \<longrightarrow>
      (getShiftMinutes s e = Fin 0 \<longleftrightarrow> toMinutes s = toMinutes e)"
    using getShiftMinutes_zero_iff [of s e] by blast
  have same: "toMinutes s \<noteq> NaN \<longrightarrow> getShiftMinutes s s = Fin 0"
    using getShiftMinutes_zero_iff [of s s] by blast
  have reject: "assignShift st empId sid =
        \<lparr>message = ''Invalid shift time format'', after = st, durationCalls = 1\<rparr>"
    if pre: "findEmployee st empId \<noteq> None" "findShift st sid = Some sh"
      "findAssignment st empId sid = None"
      and bad: "getShiftMinutes (startTime sh) (endTime sh) = Fin 0 \<or>
        getShiftMinutes (startTime sh) (endTime sh) = NaN"
  proof -
    have "\<not> validDuration (shiftDuration sh)"
      using bad by (auto simp: validDuration_def shiftDuration_def)
    then show ?thesis
      unfolding assignShift_def
      using assignShiftWith_bad_new [OF pre getConfig_valid] by simp
  qed
  have r1: "findEmployee st empId \<noteq> None \<and> findShift st sid = Some sh \<and>
      findAssignment st empId sid = None \<and>
      toMinutes (startTime sh) \<noteq> NaN \<and> toMinutes (startTime sh) = toMinutes (endTime sh) \<longrightarrow>
      assignShift st empId sid =
        \<lparr>message = ''Invalid shift time format'', after = st, durationCalls = 1\<rparr>"
    using reject getShiftMinutes_zero_iff [of "startTime sh" "endTime sh"] by auto
  have r2: "findEmployee st empId \<noteq> None \<and> findShift st sid = Some sh \<and>
      findAssignment st empId sid = None \<and>
      (toMinutes (startTime sh) = NaN \<or> toMinutes (endTime sh) = NaN) \<longrightarrow>
      assignShift st empId sid =
        \<lparr>message = ''Invalid shift time format'', after = st, durationCalls = 1\<rparr>"
    using reject getShiftMinutes_NaN_iff [of "startTime sh" "endTime sh"] by auto
  from range zero same r1 r2 show ?thesis
    by blast
qed

text \<open>
  The shift from 18:00 to 18:00 and the shift starting at "9:00" are both rejected
  with the same message.
\<close>

theorem zero_length_shift_rejected_witness:
  "toMinutes (js ''18:00'') \<noteq> NaN \<and> toMinutes (js ''09:00'') \<noteq> NaN \<and>
   getShiftMinutes (js ''18:00'') (js ''09:00'') = Fin 900 \<and>
   getShiftMinutes (js ''18:00'') (js ''18:00'') = Fin 0 \<and>
   findEmployee (demoStore 8) (js ''E001'') \<noteq> None \<and>
   findShift (demoStore 8) (js ''S003'') = Some emptyShift \<and>
   findAssignment (demoStore 8) (js ''E001'') (js ''S003'') = None \<and>
   toMinutes (startTime emptyShift) \<noteq> NaN \<and>
   toMinutes (startTime emptyShift) = toMinutes (endTime emptyShift) \<and>
   assignShift (demoStore 8) (js ''E001'') (js ''S003'') =
     \<lparr>message = ''Invalid shift time format'', after = demoStore 8, durationCalls = 1\<rparr> \<and>
   findShift (demoStore 8) (js ''S004'') = Some malformedShift \<and>
   findAssignment (demoStore 8) (js ''E001'') (js ''S004'') = None \<and>
   toMinutes (startTime malformedShift) = NaN \<and>
   assignShift (demoStore 8) (js ''E001'') (js ''S004'') =
     \<lparr>message = ''Invalid shift time format'', after = demoStore 8, durationCalls = 1\<rparr>"
proof -
  have t: "toMinutes (js ''18:00'') = Fin 1080" "toMinutes (js ''09:00'') = Fin 540"
    "toMinutes (startTime emptyShift) = Fin 1080" "toMinutes (endTime emptyShift) = Fin 1080"
    "toMinutes (startTime malformedShift) = NaN"
    by (simp_all add: demo_defs)
  have g: "getShiftMinutes (js ''18:00'') (js ''09:00'') = Fin 900"
    by (simp add: demo_defs)
  have f: "findEmployee (demoStore 8) (js ''E001'') \<noteq> None"
    "findShift (demoStore 8) (js ''S003'') = Some emptyShift"
    "findAssignment (demoStore 8) (js ''E001'') (js ''S003'') = None"
    "findShift (demoStore 8) (js ''S004'') = Some malformedShift"
    "findAssignment (demoStore 8) (js ''E001'') (js ''S004'') = None"
    by (simp_all add: demo_defs)
  show ?thesis
    using
      zero_length_shift_rejected [where s = "js ''18:00''" and e = "js ''09:00''"
        and st = "demoStore 8" and empId = "js ''E001''" and sid = "js ''S003''"
        and sh = emptyShift]
      zero_length_shift_rejected [where s = "js ''18:00''" and e = "js ''18:00''"
        and st = "demoStore 8" and empId = "js ''E001''" and sid = "js ''S004''"
        and sh = malformedShift]
      t g f
    by simp
qed

section \<open>Properties of the sorted schedule\<close>

lemma mset_bubble: "mset (bubble xs) = mset xs"
  by (induction xs rule: bubble.induct) auto

lemma set_bubble: "set (bubble xs) = set xs"
  using mset_bubble [of xs] by (metis set_mset_mset)

lemma length_bubble: "length (bubble xs) = length xs"
  using mset_bubble [of xs] by (metis size_mset)

lemma bubble_Nil_iff: "bubble xs = [] \<longleftrightarrow> xs = []"
  using length_bubble [of xs] by auto

lemma bubble_sorted_id: "sorted_wrt keyOrder xs \<Longrightarrow> bubble xs = xs"
  by (induction xs rule: bubble.induct) (auto simp: keyOrder_def)

lemma bubble_append_sorted:
  "\<forall>x\<in>set xs. \<forall>z\<in>set zs. keyOrder x z \<Longrightarrow> sorted_wrt keyOrder zs \<Longrightarrow>
   bubble (xs @ zs) = bubble xs @ zs"
proof (induction xs rule: bubble.induct)
  case (3 a b rest)
  then show ?case by auto
next
  case 1
  then show ?case by (simp add: bubble_sorted_id)
next
  case (2 v)
  show ?case
  proof (cases zs)
    case Nil
    then show ?thesis by simp
  next
    case (Cons z zs')
    with "2" have "keyOrder v z" and "bubble (z # zs') = z # zs'"
      by (simp_all add: bubble_sorted_id)
    then show ?thesis
      using Cons by (auto simp: keyOrder_def)
  qed
qed

lemma bubble_last_max:
  "xs \<noteq> [] \<Longrightarrow> \<forall>y\<in>set xs. keyOrder y (last (bubble xs))"
proof (induction xs rule: bubble.induct)
  case (3 a b rest)
  show ?case
  proof (cases "sortKey a > sortKey b")
    case True
    have ih: "\<forall>y\<in>set (a # rest). keyOrder y (last (bubble (a # rest)))"
      using "3.IH"(1) [OF True] by simp
    have ne: "bubble (a # rest) \<noteq> []"
      by (simp add: bubble_Nil_iff)
    from ih have "keyOrder a (last (bubble (a # rest)))" by simp
    with True have "keyOrder b (last (bubble (a # rest)))"
      by (auto simp: keyOrder_def)
    with ih True ne show ?thesis by auto
  next
    case False
    have ih: "\<forall>y\<in>set (b # rest). keyOrder y (last (bubble (b # rest)))"
      using "3.IH"(2) [OF False] by simp
    have ne: "bubble (b # rest) \<noteq> []"
      by (simp add: bubble_Nil_iff)
    from ih have "keyOrder b (last (bubble (b # rest)))" by simp
    with False have "keyOrder a (last (bubble (b # rest)))"
      by (auto simp: keyOrder_def)
    with ih False ne show ?thesis by auto
  qed
next
  case 1
  then show ?case by simp
next
  case (2 v)
  then show ?case by (simp add: keyOrder_def)
qed

lemma passes_invariant:
  "\<exists>ys zs. (bubble ^^ i) xs = ys @ zs \<and> length ys = length xs - i \<and>
     sorted_wrt keyOrder zs \<and> (\<forall>y\<in>set ys. \<forall>z\<in>set zs. keyOrder y z)"
proof (induction i)
  case 0
  have "(bubble ^^ 0) xs = xs @ [] \<and> length xs = length xs - 0 \<and>
     sorted_wrt keyOrder [] \<and> (\<forall>y\<in>set xs. \<forall>z\<in>set []. keyOrder y z)"
    by simp
  then show ?case by blast
next
  case (Suc i)
  then obtain ys zs where inv: "(bubble ^^ i) xs = ys @ zs" "length ys = length xs - i"
    "sorted_wrt keyOrder zs" "\<forall>y\<in>set ys. \<forall>z\<in>set zs. keyOrder y z"
    by blast
  have step: "(bubble ^^ Suc i) xs = bubble ys @ zs"
    using inv(1) bubble_append_sorted [OF inv(4) inv(3)] by simp
  show ?case
  proof (cases "ys = []")
    case True
    with step inv have "(bubble ^^ Suc i) xs = [] @ zs \<and> length ([]::shift list) = length xs - Suc i \<and>
       sorted_wrt keyOrder zs \<and> (\<forall>y\<in>set []. \<forall>z\<in>set zs. keyOrder y z)"
      by simp
    then show ?thesis by blast
  next
    case False
    define m where "m = last (bubble ys)"
    define ys' where "ys' = butlast (bubble ys)"
    have ne: "bubble ys \<noteq> []"
      using False by (simp add: bubble_Nil_iff)
    have split: "bubble ys = ys' @ [m]"
      using ne by (simp add: m_def ys'_def)
    have m_in: "m \<in> set ys"
      using ne set_bubble [of ys] last_in_set [OF ne] by (simp add: m_def)
    have sub: "set ys' \<subseteq> set ys"
      using set_bubble [of ys] split by auto
    have max: "\<forall>y\<in>set ys. keyOrder y m"
      using bubble_last_max [OF False] by (simp add: m_def)
    have "length (bubble ys) = length ys' + 1"
      by (simp add: split)
    then have len: "length ys' = length xs - Suc i"
      using inv(2) length_bubble [of ys] by simp
    have sorted: "sorted_wrt keyOrder (m # zs)"
      using inv(3,4) m_in by simp
    have below: "\<forall>y\<in>set ys'. \<forall>z\<in>set (m # zs). keyOrder y z"
      using sub max inv(4) by auto
    have "(bubble ^^ Suc i) xs = ys' @ (m # zs)"
      using step split by simp
    with len sorted below show ?thesis by blast
  qed
qed

lemma passes_sorted: "length xs \<le> i \<Longrightarrow> sorted_wrt keyOrder ((bubble ^^ i) xs)"
  using passes_invariant [of i xs] by auto

lemma mset_passes: "mset ((bubble ^^ i) xs) = mset xs"
  by (induction i) (simp_all add: mset_bubble)

lemma length_passes: "length ((bubble ^^ i) xs) = length xs"
  using mset_passes [of i xs] by (metis size_mset)

lemma innerLoop_bubble:
  "j \<le> length xs \<Longrightarrow> innerLoop xs j = take j xs @ bubble (drop j xs)"
proof (induction xs j rule: innerLoop.induct)
  case (1 xs j)
  show ?case
  proof (cases "j + 1 < length xs")
    case False
    with "1.prems" have "length (drop j xs) \<le> 1" by simp
    then have "bubble (drop j xs) = drop j xs"
      by (cases "drop j xs" rule: bubble.cases) simp_all
    with False show ?thesis by (subst innerLoop.simps) simp
  next
    case True
    define pre where "pre = take j xs"
    define rest where "rest = drop (j + 2) xs"
    define a where "a = xs ! j"
    define b where "b = xs ! (j + 1)"
    have xs: "xs = pre @ a # b # rest" and lp: "length pre = j"
      using True
      by (simp_all add: pre_def rest_def a_def b_def Cons_nth_drop_Suc)
    define xs' where "xs' = (if sortKey a > sortKey b then xs[j := b, j + 1 := a] else xs)"
    have unfold: "innerLoop xs j = innerLoop xs' (j + 1)"
      using True by (subst innerLoop.simps) (simp add: xs'_def a_def b_def Let_def del: innerLoop.simps)
    have len': "length xs' = length xs"
      by (simp add: xs'_def)
    have "j + 1 \<le> length xs' \<Longrightarrow>
        innerLoop xs' (j + 1) = take (j + 1) xs' @ bubble (drop (j + 1) xs')"
      using "1.IH" [OF True refl refl refl refl] unfolding xs'_def a_def b_def .
    then have ih: "innerLoop xs' (j + 1) = take (j + 1) xs' @ bubble (drop (j + 1) xs')"
      using True len' by simp
    have swapped: "xs[j := b, j + 1 := a] = pre @ b # a # rest"
      using lp by (simp add: xs list_update_append)
    have "take (j + 1) xs' @ bubble (drop (j + 1) xs') = take j xs @ bubble (drop j xs)"
    proof (cases "sortKey a > sortKey b")
      case True
      then have "xs' = pre @ b # a # rest"
        using swapped by (simp add: xs'_def)
      then show ?thesis
        using True lp by (simp add: xs)
    next
      case False
      then have "xs' = pre @ a # b # rest"
        using xs by (simp add: xs'_def)
      then show ?thesis
        using False lp by (simp add: xs)
    qed
    with unfold ih show ?thesis by simp
  qed
qed

lemma innerLoop_pass: "innerLoop xs 0 = bubble xs"
  using innerLoop_bubble [of 0 xs] by simp

lemma outerLoop_passes: "outerLoop xs i = (bubble ^^ (length xs - i)) xs"
proof (induction xs i rule: outerLoop.induct)
  case (1 xs i)
  show ?case
  proof (cases "i < length xs")
    case False
    then show ?thesis by (subst outerLoop.simps) simp
  next
    case True
    have "outerLoop xs i = outerLoop (innerLoop xs 0) (i + 1)"
      using True by (subst outerLoop.simps) simp
    also have "\<dots> = (bubble ^^ (length xs - (i + 1))) (bubble xs)"
      using "1.IH" [OF True] by (simp add: innerLoop_pass length_bubble del: innerLoop.simps outerLoop.simps)
    also have "\<dots> = (bubble ^^ Suc (length xs - (i + 1))) xs"
      by (simp only: funpow_Suc_right o_apply)
    also have "Suc (length xs - (i + 1)) = length xs - i"
      using True by simp
    finally show ?thesis .
  qed
qed

lemma same_length_append_le:
  fixes xs ys us vs :: "nat list"
  shows "length xs = length ys \<Longrightarrow> (xs @ us \<le> ys @ vs \<longleftrightarrow> xs < ys \<or> (xs = ys \<and> us \<le> vs))"
  by (induction xs ys rule: list_induct2) auto

lemma keyOrder_dateThenStart:
  "length (date a) = length (date b) \<Longrightarrow> keyOrder a b \<longleftrightarrow> dateThenStart a b"
  by (simp add: keyOrder_def dateThenStart_def sortKey_def same_length_append_le js_def)

text \<open>
  Claim C10. \<open>getScheduleForEmployeeSorted\<close> returns a permutation of the shifts that
  the persistence layer returns for the employee, in non-decreasing lexicographic
  order of the key \<open>date + " " + startTime\<close>. When all dates have the same length
  (as dates written \<open>YYYY-MM-DD\<close> have), this is the order by date and then by start
  time.
\<close>

theorem getScheduleForEmployeeSorted_sorted:
  "mset (getScheduleForEmployeeSorted fetch empId) = mset (fetch empId) \<and>
   sorted_wrt keyOrder (getScheduleForEmployeeSorted fetch empId) \<and>
   ((\<forall>a\<in>set (fetch empId). \<forall>b\<in>set (fetch empId). length (date a) = length (date b)) \<longrightarrow>
      sorted_wrt dateThenStart (getScheduleForEmployeeSorted fetch empId))"
proof -
  let ?xs = "fetch empId"
  let ?r = "getScheduleForEmployeeSorted fetch empId"
  have r: "?r = (bubble ^^ length ?xs) ?xs"
    by (simp add: getScheduleForEmployeeSorted_def outerLoop_passes del: outerLoop.simps)
  have perm: "mset ?r = mset ?xs"
    by (simp only: r mset_passes)
  have sorted: "sorted_wrt keyOrder ?r"
    using passes_sorted [of ?xs "length ?xs"] by (simp only: r)
  have "sorted_wrt dateThenStart ?r"
    if same: "\<forall>a\<in>set ?xs. \<forall>b\<in>set ?xs. length (date a) = length (date b)"
  proof -
    have members: "set ?r = set ?xs"
      using perm by (metis set_mset_mset)
    have "dateThenStart a b" if "a \<in> set ?r" "b \<in> set ?r" "keyOrder a b" for a b
    proof -
      have "length (date a) = length (date b)"
        using that(1,2) same unfolding members by blast
      then show ?thesis
        using that(3) by (simp only: keyOrder_dateThenStart)
    qed
    then show ?thesis
      using sorted sorted_wrt_mono_rel [of ?r keyOrder dateThenStart] by blast
  qed
  with perm sorted show ?thesis by blast
qed

text \<open>
  Three shifts returned in the order S005, S002, S001, all with dates of ten code
  units, come back as S001, S002, S005.
\<close>

theorem getScheduleForEmployeeSorted_sorted_witness:
  "demoFetch (js ''E001'') = [hourShift, nightShift, morningShift] \<and>
   map (\<lambda>s. length (date s)) (demoFetch (js ''E001'')) = [10, 10, 10] \<and>
   getScheduleForEmployeeSorted demoFetch (js ''E001'') = [morningShift, nightShift, hourShift] \<and>
   mset [morningShift, nightShift, hourShift] = mset [hourShift, nightShift, morningShift] \<and>
   sorted_wrt keyOrder [morningShift, nightShift, hourShift] \<and>
   sorted_wrt dateThenStart [morningShift, nightShift, hourShift]"
proof -
  have fetched: "demoFetch (js ''E001'') = [hourShift, nightShift, morningShift]"
    by (simp add: demoFetch_def)
  have same: "\<forall>a\<in>set (demoFetch (js ''E001'')). \<forall>b\<in>set (demoFetch (js ''E001'')).
      length (date a) = length (date b)"
    unfolding fetched by (simp add: morningShift_def nightShift_def hourShift_def js_def)
  have k1: "sortKey nightShift < sortKey hourShift"
    by (simp add: sortKey_def nightShift_def hourShift_def js_def)
  have k2: "sortKey morningShift < sortKey nightShift"
    by (simp add: sortKey_def nightShift_def morningShift_def js_def)
  have k3: "sortKey morningShift < sortKey hourShift"
    by (simp add: sortKey_def hourShift_def morningShift_def js_def)
  have result: "getScheduleForEmployeeSorted demoFetch (js ''E001'') =
      [morningShift, nightShift, hourShift]"
    using k1 k2 k3
    by (simp add: getScheduleForEmployeeSorted_def outerLoop_passes fetched numeral_3_eq_3
        not_less_iff_gr_or_eq)
  note sorted = getScheduleForEmployeeSorted_sorted [of demoFetch "js ''E001''"]
  have perm: "mset (getScheduleForEmployeeSorted demoFetch (js ''E001'')) =
      mset (demoFetch (js ''E001''))"
    using sorted by (rule conjunct1)
  have byKey: "sorted_wrt keyOrder (getScheduleForEmployeeSorted demoFetch (js ''E001''))"
    using sorted by blast
  have byDate: "sorted_wrt dateThenStart (getScheduleForEmployeeSorted demoFetch (js ''E001''))"
    using sorted same by blast
  have lengths: "map (\<lambda>s. length (date s)) (demoFetch (js ''E001'')) = [10, 10, 10]"
    unfolding fetched by (simp add: morningShift_def nightShift_def hourShift_def js_def)
  from fetched lengths result perm [unfolded result fetched] byKey [unfolded result]
    byDate [unfolded result]
  show ?thesis
    by (intro conjI)
qed

section \<open>Properties of the edit route\<close>

lemma postEmployeeEdit_outcomes:
  "postEmployeeEdit upd db empId bodyName bodyPhone =
     (if trim (case bodyName of Some n \<Rightarrow> n | None \<Rightarrow> []) = []
      then (Send 200 ''Validation failed: Name must be non-empty'', db)
      else if \<not> phoneOk (trim (case bodyPhone of Some p \<Rightarrow> p | None \<Rightarrow> []))
      then (Send 200 ''Validation failed: Phone must be 4 digits, a dash, then 4 digits'', db)
      else (case upd db empId (trim (case bodyName of Some n \<Rightarrow> n | None \<Rightarrow> []))
                  (trim (case bodyPhone of Some p \<Rightarrow> p | None \<Rightarrow> [])) of
              None \<Rightarrow> (NoResponse, db)
            | Some db' \<Rightarrow> (Redirect ''/'', db')))"
  by (simp add: postEmployeeEdit_def Let_def)

lemma postEmployeeEdit_never_404:
  "fst (postEmployeeEdit upd db empId bodyName bodyPhone) \<noteq> Send 404 body"
  by (simp add: postEmployeeEdit_def Let_def split: option.splits)

text \<open>
  Claim C8. The handler of \<open>POST /employees/:id/edit\<close> never answers with status 404:
  it does not look the employee up. For an employee that does not exist the sibling
  route \<open>GET /employees/:id/edit\<close> answers 404, and the \<open>POST\<close> with a valid name and
  phone number calls the update and redirects to \<open>/\<close>.
\<close>

theorem postEmployeeEdit_missing_employee:
  "fst (postEmployeeEdit upd db empId bodyName bodyPhone) \<noteq> Send 404 body \<and>
   demoFind [] (js ''E999'') = None \<and>
   getEmployeeEdit demoFind [] (js ''E999'') = Send 404 ''Employee not found'' \<and>
   postEmployeeEdit demoUpdate [] (js ''E999'') (Some (js ''Bob'')) (Some (js ''1234-5678'')) =
     (Redirect ''/'', [])"
proof -
  have never: "fst (postEmployeeEdit upd db empId bodyName bodyPhone) \<noteq> Send 404 body"
    by (rule postEmployeeEdit_never_404)
  have missing: "demoFind [] (js ''E999'') = None"
    by (simp add: demoFind_def)
  have sibling: "getEmployeeEdit demoFind [] (js ''E999'') = Send 404 ''Employee not found''"
    by (simp add: getEmployeeEdit_def demoFind_def)
  have redirected: "postEmployeeEdit demoUpdate [] (js ''E999'') (Some (js ''Bob''))
      (Some (js ''1234-5678'')) = (Redirect ''/'', [])"
    by (simp add: postEmployeeEdit_def demoUpdate_def phoneOk_def trim_def
        isStrWhiteSpaceChar_def isDigit_def js_def)
  from never missing sibling redirected show ?thesis
    by (intro conjI)
qed

end
